theory Spec2Isabelle
  imports Complex_Main
begin

section \<open>Conventions\<close>

text \<open>
  The program is a React / three.js scene written in TypeScript. Every JavaScript number
  is modelled as a real number: the rounding of IEEE doubles, NaN and the infinities are
  outside the model, so each statement below is about the arithmetic the code writes down.
  The one exception is the tick of the global morph factor, where rounding decides how
  many ticks the factor needs: that tick is given a second time with every operation
  rounded to binary64.
  A React state cell is a field of a record that the handlers return updated; a
  \<^verbatim>\<open>ref.current\<close> that may be null is an option or a flag; a thrown
  exception is a constructor of the result.
\<close>

section \<open>types.ts\<close>

datatype TreeMorphState = SCATTERED | TREE_SHAPE

type_synonym vec3 = "real \<times> real \<times> real"

record DualPosition =
  treePosition :: vec3
  scatterPosition :: vec3
  rotation :: vec3
  scale :: real
  speed :: real

datatype OrnamentType = heavy | light | extra_light

record OrnamentData = DualPosition +
  item_id :: nat
  item_type :: OrnamentType
  color :: string

record PhotoData = DualPosition +
  photo_id :: string
  url :: string
  aspectRatio :: real

section \<open>Library functions the source calls\<close>

text \<open>
  \<^verbatim>\<open>Math.hypot(a, b)\<close> of JavaScript, and the interpolation helpers of three.js
  as that library defines them: \<^verbatim>\<open>MathUtils.lerp(x, y, t) = (1 - t) * x + t * y\<close>,
  \<^verbatim>\<open>Vector3.lerp(v, alpha)\<close> adds \<^verbatim>\<open>(v - this) * alpha\<close> to each coordinate, and
  \<^verbatim>\<open>Vector3.lerpVectors(v1, v2, alpha)\<close> is \<^verbatim>\<open>v1 + (v2 - v1) * alpha\<close>.
  None of them clamps its interpolation parameter.
\<close>

definition hypot :: "real \<Rightarrow> real \<Rightarrow> real" where
  "hypot a b = sqrt (a\<^sup>2 + b\<^sup>2)"

definition MathUtils_lerp :: "real \<Rightarrow> real \<Rightarrow> real \<Rightarrow> real" where
  "MathUtils_lerp x y t = (1 - t) * x + t * y"

definition Vector3_lerp :: "vec3 \<Rightarrow> vec3 \<Rightarrow> real \<Rightarrow> vec3" where
  "Vector3_lerp this v alpha =
     (case this of (tx, ty, tz) \<Rightarrow> case v of (vx, vy, vz) \<Rightarrow>
        (tx + (vx - tx) * alpha, ty + (vy - ty) * alpha, tz + (vz - tz) * alpha))"

definition Vector3_lerpVectors :: "vec3 \<Rightarrow> vec3 \<Rightarrow> real \<Rightarrow> vec3" where
  "Vector3_lerpVectors v1 v2 alpha =
     (case v1 of (ax, ay, az) \<Rightarrow> case v2 of (bx, by, bz) \<Rightarrow>
        (ax + (bx - ax) * alpha, ay + (by - ay) * alpha, az + (bz - az) * alpha))"

definition Vector3_length :: "vec3 \<Rightarrow> real" where
  "Vector3_length p = (case p of (px, py, pz) \<Rightarrow> sqrt (px\<^sup>2 + py\<^sup>2 + pz\<^sup>2))"

text \<open>JavaScript array indexing: an index past the end yields \<^verbatim>\<open>undefined\<close>.\<close>

definition js_index :: "'a list \<Rightarrow> nat \<Rightarrow> 'a option" where
  "js_index xs i = (if i < length xs then Some (xs ! i) else None)"

section \<open>IEEE 754 binary64 arithmetic\<close>

text \<open>
  A JavaScript number is a binary64 value, and each arithmetic operation returns the
  exact result rounded to the nearest binary64 value, a tie going to the value with the
  even significand. \<open>round_binary64\<close> is that rounding: the spacing of the values around
  \<open>x\<close> is \<open>2 ^ (e - 52)\<close> for the exponent \<open>e\<close> of \<open>x\<close>, which is never below that of the
  smallest normal number, \<open>- 1022\<close>. Overflow to \<^verbatim>\<open>Infinity\<close> (from \<open>2 ^ 1024\<close> on)
  and \<^verbatim>\<open>NaN\<close> are not modelled.
\<close>

definition round_ties_even :: "real \<Rightarrow> int" where
  "round_ties_even q =
     (let f = \<lfloor>q\<rfloor>;
          r = q - of_int f
      in if r < 1 / 2 then f
         else if 1 / 2 < r then f + 1
         else if even f then f else f + 1)"

definition binary64_exponent :: "real \<Rightarrow> int" where
  "binary64_exponent x = max (- 1022) \<lfloor>log 2 \<bar>x\<bar>\<rfloor>"

definition round_binary64 :: "real \<Rightarrow> real" where
  "round_binary64 x =
     (if x = 0 then 0
      else
        (let ulp = 2 powi (binary64_exponent x - 52)
         in sgn x * (of_int (round_ties_even (\<bar>x\<bar> / ulp)) * ulp)))"

section \<open>utils/math.ts\<close>

text \<open>
  \<^verbatim>\<open>getRandomSpherePoint(radius)\<close>. The three calls of \<^verbatim>\<open>Math.random()\<close> are the
  parameters \<open>u\<close>, \<open>v\<close> and \<open>w\<close>, in the order the source makes them.
\<close>

definition getRandomSpherePoint :: "real \<Rightarrow> real \<Rightarrow> real \<Rightarrow> real \<Rightarrow> vec3" where
  "getRandomSpherePoint radius u v w =
     (let theta = 2 * pi * u;
          phi = arccos (2 * v - 1);
          r = root 3 w * radius;
          sinPhi = sin phi
      in (r * sinPhi * cos theta, r * sinPhi * sin theta, r * cos phi))"

section \<open>App.tsx\<close>

text \<open>The state cells of \<^verbatim>\<open>App\<close>, which are also the props of \<^verbatim>\<open>Experience\<close>.\<close>

record app_state =
  treeState :: TreeMorphState
  handPosition :: "(real \<times> real) option"
  isMagnified :: bool
  photos :: "string list"

definition initial_app_state :: app_state where
  "initial_app_state =
     \<lparr>treeState = TREE_SHAPE, handPosition = None, isMagnified = False, photos = []\<rparr>"

definition handleStateChange ::
  "TreeMorphState \<Rightarrow> 'a app_state_scheme \<Rightarrow> 'a app_state_scheme" where
  "handleStateChange newState s =
     s\<lparr>treeState := (if treeState s \<noteq> newState then newState else treeState s)\<rparr>"

definition setHandPosition ::
  "(real \<times> real) option \<Rightarrow> 'a app_state_scheme \<Rightarrow> 'a app_state_scheme" where
  "setHandPosition pos s = s\<lparr>handPosition := pos\<rparr>"

definition setIsMagnified :: "bool \<Rightarrow> 'a app_state_scheme \<Rightarrow> 'a app_state_scheme" where
  "setIsMagnified b s = s\<lparr>isMagnified := b\<rparr>"

section \<open>components/Experience.tsx\<close>

definition initial_smoothMorph :: real where
  "initial_smoothMorph = 0"

record controls =
  autoRotate :: bool
  autoRotateSpeed :: real

text \<open>The effect that runs when \<open>treeState\<close>, \<open>handPosition\<close> or \<open>isMagnified\<close> changes.\<close>

definition updateControls :: "'a app_state_scheme \<Rightarrow> controls option \<Rightarrow> controls option" where
  "updateControls props controlsRef =
     (case controlsRef of
        None \<Rightarrow> None
      | Some c \<Rightarrow>
          Some (c\<lparr>autoRotate :=
                    (treeState props = TREE_SHAPE \<and> handPosition props = None
                       \<and> \<not> isMagnified props),
                  autoRotateSpeed := 0.5\<rparr>))"

text \<open>The morph part of the \<^verbatim>\<open>useFrame\<close> callback, lines 49 to 63.\<close>

definition morphTarget :: "TreeMorphState \<Rightarrow> real" where
  "morphTarget ts = (if ts = TREE_SHAPE then 1 else 0)"

definition morphNext :: "TreeMorphState \<Rightarrow> real \<Rightarrow> real \<Rightarrow> real" where
  "morphNext ts delta smoothMorph =
     (let target = morphTarget ts;
          step = delta * 1.5
      in if smoothMorph < target then min target (smoothMorph + step)
         else if smoothMorph > target then max target (smoothMorph - step)
         else smoothMorph)"

definition morphTick :: "TreeMorphState \<Rightarrow> real \<Rightarrow> real \<Rightarrow> real" where
  "morphTick ts delta smoothMorph =
     (let next = morphNext ts delta smoothMorph
      in if next \<noteq> smoothMorph then next else smoothMorph)"

text \<open>
  The frame loop with the tree state held fixed: one tick per entry of the list of frame
  deltas. The result lists the morph factor before the first tick and after each tick.
\<close>

fun morphFrames :: "TreeMorphState \<Rightarrow> real list \<Rightarrow> real \<Rightarrow> real list" where
  "morphFrames ts [] m = [m]"
| "morphFrames ts (delta # deltas) m = m # morphFrames ts deltas (morphTick ts delta m)"

text \<open>
  The same tick and frame loop with the rounding of the code's arithmetic written out:
  the product \<^verbatim>\<open>delta * 1.5\<close>, the sum \<^verbatim>\<open>smoothMorph + step\<close> and the difference
  \<^verbatim>\<open>smoothMorph - step\<close> are each rounded to binary64; comparisons,
  \<^verbatim>\<open>Math.min\<close> and \<^verbatim>\<open>Math.max\<close> are exact.
\<close>

definition morphNext_binary64 :: "TreeMorphState \<Rightarrow> real \<Rightarrow> real \<Rightarrow> real" where
  "morphNext_binary64 ts delta smoothMorph =
     (let target = morphTarget ts;
          step = round_binary64 (delta * 1.5)
      in if smoothMorph < target then min target (round_binary64 (smoothMorph + step))
         else if smoothMorph > target then max target (round_binary64 (smoothMorph - step))
         else smoothMorph)"

definition morphTick_binary64 :: "TreeMorphState \<Rightarrow> real \<Rightarrow> real \<Rightarrow> real" where
  "morphTick_binary64 ts delta smoothMorph =
     (let next = morphNext_binary64 ts delta smoothMorph
      in if next \<noteq> smoothMorph then next else smoothMorph)"

fun morphFrames_binary64 :: "TreeMorphState \<Rightarrow> real list \<Rightarrow> real \<Rightarrow> real list" where
  "morphFrames_binary64 ts [] m = [m]"
| "morphFrames_binary64 ts (delta # deltas) m =
     m # morphFrames_binary64 ts deltas (morphTick_binary64 ts delta m)"

section \<open>components/Ornaments.tsx\<close>

text \<open>
  \<^verbatim>\<open>updateMesh(mesh, data)\<close> for one item of \<open>data\<close>, as far as it changes the stored
  position \<^verbatim>\<open>currentPositions.current[key]\<close>. Without a mesh the function returns
  before it touches any item; the stored position is absent (\<open>None\<close>) until the layout
  effect has filled it in. The matrix handed to the renderer (floating noise, rotation,
  scale) is not modelled.
\<close>

definition updateMesh_item ::
  "bool \<Rightarrow> real \<Rightarrow> real \<Rightarrow> 'a OrnamentData_scheme \<Rightarrow> vec3 option \<Rightarrow> vec3 option" where
  "updateMesh_item mesh delta targetMorphFactor item currentPos =
     (let dt = delta * 1.5 in
      if \<not> mesh then currentPos
      else
        case scatterPosition item of (sx, sy, sz) \<Rightarrow>
        case treePosition item of (tx, ty, tz) \<Rightarrow>
          (let targetX = MathUtils_lerp sx tx targetMorphFactor;
               targetY = MathUtils_lerp sy ty targetMorphFactor;
               targetZ = MathUtils_lerp sz tz targetMorphFactor;
               lerpSpeed = dt * speed item
           in case currentPos of
                None \<Rightarrow> None
              | Some (cx, cy, cz) \<Rightarrow>
                  Some (MathUtils_lerp cx targetX lerpSpeed,
                        MathUtils_lerp cy targetY lerpSpeed,
                        MathUtils_lerp cz targetZ lerpSpeed)))"

section \<open>components/Photos.tsx\<close>

text \<open>
  The position part of the \<^verbatim>\<open>useFrame\<close> callback of \<^verbatim>\<open>PolaroidItem\<close>:
  the target of the frame, and the move of \<^verbatim>\<open>currentPos\<close> toward it. The callback
  returns at once while the group is not mounted.
\<close>

definition polaroidTarget :: "bool \<Rightarrow> nat \<Rightarrow> nat \<Rightarrow> real \<Rightarrow> 'a PhotoData_scheme \<Rightarrow> vec3" where
  "polaroidTarget magnified index total_photos morphFactor data =
     (if magnified then
        (let radius = 6;
             angleStep = pi / (real total_photos + 1);
             angle = - pi / 2 + angleStep * (real index + 1)
         in (sin angle * radius * 1.5, 6 + cos (angle * 2) * 1.0, 22 + cos angle * 2))
      else Vector3_lerpVectors (scatterPosition data) (treePosition data) morphFactor)"

definition polaroidFrame ::
  "bool \<Rightarrow> real \<Rightarrow> bool \<Rightarrow> nat \<Rightarrow> nat \<Rightarrow> real \<Rightarrow> 'a PhotoData_scheme \<Rightarrow> vec3 \<Rightarrow> vec3" where
  "polaroidFrame groupRefCurrent delta magnified index total_photos morphFactor data currentPos =
     (if \<not> groupRefCurrent then currentPos
      else
        (let target = polaroidTarget magnified index total_photos morphFactor data;
             moveSpeed = delta * (if magnified then 5.0 else 2.0 * speed data)
         in Vector3_lerp currentPos target moveSpeed))"

section \<open>components/GestureController.tsx\<close>

record landmark =
  lm_x :: real
  lm_y :: real

text \<open>
  The detector's result: \<open>None\<close> when \<^verbatim>\<open>multiHandLandmarks\<close> is missing, otherwise
  one landmark list per detected hand.
\<close>

record results =
  multiHandLandmarks :: "landmark list list option"

text \<open>What the handler finds in the page: the two refs and the 2D context of the canvas.\<close>

record dom =
  canvasRefCurrent :: bool
  videoRefCurrent :: bool
  canvasCtx :: bool

text \<open>The state the handler writes: the cells of \<^verbatim>\<open>App\<close> and the component's own two.\<close>

record gesture_state = app_state +
  status :: string
  gestureLabel :: string

datatype error = TypeError

datatype outcome = Returned gesture_state | Raised error gesture_state

definition bindE :: "error + 'a \<Rightarrow> ('a \<Rightarrow> error + 'b) \<Rightarrow> error + 'b" where
  "bindE r f = (case r of Inl e \<Rightarrow> Inl e | Inr a \<Rightarrow> f a)"

text \<open>
  \<^verbatim>\<open>isFingerOpen(tipIdx, pipIdx)\<close>. Reading \<^verbatim>\<open>.x\<close> of a landmark that is
  \<^verbatim>\<open>undefined\<close> throws a TypeError.
\<close>

definition isFingerOpen ::
  "landmark list \<Rightarrow> landmark option \<Rightarrow> nat \<Rightarrow> nat \<Rightarrow> error + bool" where
  "isFingerOpen landmarks wrist tipIdx pipIdx =
     (case js_index landmarks tipIdx of
        None \<Rightarrow> Inl TypeError
      | Some tip \<Rightarrow>
     (case wrist of
        None \<Rightarrow> Inl TypeError
      | Some w \<Rightarrow>
     (case js_index landmarks pipIdx of
        None \<Rightarrow> Inl TypeError
      | Some pip \<Rightarrow>
          (let dTip = hypot (lm_x tip - lm_x w) (lm_y tip - lm_y w);
               dPip = hypot (lm_x pip - lm_x w) (lm_y pip - lm_y w)
           in Inr (dTip > dPip)))))"

definition openCount_of :: "landmark list \<Rightarrow> error + nat" where
  "openCount_of landmarks =
     (let wrist = js_index landmarks 0 in
      bindE (isFingerOpen landmarks wrist 8 6) (\<lambda>indexOpen.
      bindE (isFingerOpen landmarks wrist 12 10) (\<lambda>middleOpen.
      bindE (isFingerOpen landmarks wrist 16 14) (\<lambda>ringOpen.
      bindE (isFingerOpen landmarks wrist 20 18) (\<lambda>pinkyOpen.
      bindE (isFingerOpen landmarks wrist 4 2) (\<lambda>thumbOpen.
        Inr (length (filter (\<lambda>b. b)
               [indexOpen, middleOpen, ringOpen, pinkyOpen, thumbOpen]))))))))"

definition pinchDist_of :: "landmark list \<Rightarrow> error + real" where
  "pinchDist_of landmarks =
     (case js_index landmarks 4 of
        None \<Rightarrow> Inl TypeError
      | Some thumbTip \<Rightarrow>
     (case js_index landmarks 8 of
        None \<Rightarrow> Inl TypeError
      | Some indexTip \<Rightarrow>
          Inr (hypot (lm_x thumbTip - lm_x indexTip) (lm_y thumbTip - lm_y indexTip))))"

text \<open>The priority logic, lines 296 to 312.\<close>

definition priorityLogic :: "nat \<Rightarrow> real \<Rightarrow> gesture_state \<Rightarrow> gesture_state" where
  "priorityLogic openCount pinchDist s =
     (let isPinching = pinchDist < 0.05 in
      if isPinching then (setIsMagnified True s)\<lparr>gestureLabel := ''CATCH''\<rparr>
      else
        (let s1 = setIsMagnified False s in
         if openCount \<le> 1 then (handleStateChange TREE_SHAPE s1)\<lparr>gestureLabel := ''FORM''\<rparr>
         else if openCount \<ge> 4 then
           (handleStateChange SCATTERED s1)\<lparr>gestureLabel := ''UNLEASH''\<rparr>
         else s1\<lparr>gestureLabel := ''TRACKING''\<rparr>))"

text \<open>The position tracking, lines 315 to 319.\<close>

definition positionTracking :: "landmark list \<Rightarrow> gesture_state \<Rightarrow> outcome" where
  "positionTracking landmarks s =
     (case js_index landmarks 9 of
        None \<Rightarrow> Raised TypeError s
      | Some p \<Rightarrow>
          Returned (setHandPosition (Some ((1 - lm_x p - 0.5) * 2, (lm_y p - 0.5) * 2)) s))"

text \<open>The branch of \<^verbatim>\<open>onResults\<close> for a detected hand, lines 251 to 319.\<close>

definition handDetected :: "landmark list \<Rightarrow> gesture_state \<Rightarrow> outcome" where
  "handDetected landmarks s =
     (let s0 = s\<lparr>status := ''active''\<rparr> in
      case openCount_of landmarks of
        Inl e \<Rightarrow> Raised e s0
      | Inr openCount \<Rightarrow>
     (case pinchDist_of landmarks of
        Inl e \<Rightarrow> Raised e s0
      | Inr pinchDist \<Rightarrow> positionTracking landmarks (priorityLogic openCount pinchDist s0)))"

definition noHand :: "gesture_state \<Rightarrow> gesture_state" where
  "noHand s = setIsMagnified False ((setHandPosition None s)\<lparr>gestureLabel := ''NO HAND''\<rparr>)"

definition onResults :: "dom \<Rightarrow> results \<Rightarrow> gesture_state \<Rightarrow> outcome" where
  "onResults d res s =
     (if \<not> canvasRefCurrent d \<or> \<not> videoRefCurrent d then Returned s
      else if \<not> canvasCtx d then Returned s
      else
        (case multiHandLandmarks res of
           None \<Rightarrow> Returned (noHand s)
         | Some [] \<Rightarrow> Returned (noHand s)
         | Some (landmarks # others) \<Rightarrow> handDetected landmarks s))"

section \<open>Notions the properties are stated in\<close>

text \<open>A value lying between two others, for numbers and coordinate by coordinate.\<close>

definition between :: "real \<Rightarrow> real \<Rightarrow> real \<Rightarrow> bool" where
  "between a b c = (min a b \<le> c \<and> c \<le> max a b)"

definition vec3_between :: "vec3 \<Rightarrow> vec3 \<Rightarrow> vec3 \<Rightarrow> bool" where
  "vec3_between a b c =
     (case a of (ax, ay, az) \<Rightarrow> case b of (bx, by, bz) \<Rightarrow> case c of (cx, cy, cz) \<Rightarrow>
        between ax bx cx \<and> between ay by cy \<and> between az bz cz)"

text \<open>
  The smoothing step in the specification's words:
  \<^verbatim>\<open>currentPosition += (target - currentPosition) * min(1, tickDeltaSeconds * arrivalRate * globalSpeedMultiplier)\<close>.
\<close>

definition spec_smoothing :: "real \<Rightarrow> real \<Rightarrow> real \<Rightarrow> real \<Rightarrow> real \<Rightarrow> real" where
  "spec_smoothing currentPosition target tickDeltaSeconds arrivalRate globalSpeedMultiplier =
     currentPosition
       + (target - currentPosition)
           * min 1 (tickDeltaSeconds * arrivalRate * globalSpeedMultiplier)"

text \<open>
  The specification's reading of a landmark sample: the Euclidean distance of two
  landmarks, a finger being open when its tip is strictly farther from the wrist
  (landmark 0) than its proximal joint, the number of open fingers among the five
  (tip, joint) pairs the source inspects, and the pinch distance between thumb tip
  (landmark 4) and index tip (landmark 8).
\<close>

definition landmark_distance :: "landmark \<Rightarrow> landmark \<Rightarrow> real" where
  "landmark_distance p q = sqrt ((lm_x p - lm_x q)\<^sup>2 + (lm_y p - lm_y q)\<^sup>2)"

definition finger_joints :: "(nat \<times> nat) list" where
  "finger_joints = [(8, 6), (12, 10), (16, 14), (20, 18), (4, 2)]"

definition finger_open :: "landmark list \<Rightarrow> nat \<times> nat \<Rightarrow> bool" where
  "finger_open landmarks finger =
     (case finger of (tip, joint) \<Rightarrow>
        landmark_distance (landmarks ! tip) (landmarks ! 0)
          > landmark_distance (landmarks ! joint) (landmarks ! 0))"

definition openCount :: "landmark list \<Rightarrow> nat" where
  "openCount landmarks = length (filter (finger_open landmarks) finger_joints)"

definition pinchDistance :: "landmark list \<Rightarrow> real" where
  "pinchDistance landmarks = landmark_distance (landmarks ! 4) (landmarks ! 8)"

text \<open>
  The page in which the handler gets past its two early returns: both refs are set and
  the canvas has a 2D context.
\<close>

definition dom_ready :: dom where
  "dom_ready = \<lparr>canvasRefCurrent = True, videoRefCurrent = True, canvasCtx = True\<rparr>"

subsection \<open>Concrete inputs\<close>

definition point :: "real \<Rightarrow> real \<Rightarrow> landmark" where
  "point px py = \<lparr>lm_x = px, lm_y = py\<rparr>"

text \<open>
  A hand of 21 landmarks with the wrist at \<open>(0.5, 0.9)\<close>, the joints of the fingers fixed
  and the five finger tips given.
\<close>

definition hand_sample ::
  "landmark \<Rightarrow> landmark \<Rightarrow> landmark \<Rightarrow> landmark \<Rightarrow> landmark \<Rightarrow> landmark list" where
  "hand_sample thumbTip indexTip middleTip ringTip pinkyTip =
     [point 0.5 0.9,
      point 0.45 0.85, point 0.4 0.8, point 0.42 0.6, thumbTip,
      point 0.5 0.7, point 0.5 0.6, point 0.5 0.5, indexTip,
      point 0.55 0.7, point 0.55 0.6, point 0.55 0.5, middleTip,
      point 0.6 0.7, point 0.6 0.6, point 0.6 0.5, ringTip,
      point 0.65 0.7, point 0.65 0.6, point 0.65 0.5, pinkyTip]"

text \<open>All five fingers stretched, thumb tip 0.03 away from the index tip.\<close>

definition pinching_open_hand :: "landmark list" where
  "pinching_open_hand =
     hand_sample (point 0.47 0.4) (point 0.5 0.4) (point 0.55 0.4) (point 0.6 0.4)
       (point 0.65 0.4)"

text \<open>All five fingers stretched, thumb held apart.\<close>

definition open_hand :: "landmark list" where
  "open_hand =
     hand_sample (point 0.3 0.6) (point 0.5 0.4) (point 0.55 0.4) (point 0.6 0.4)
       (point 0.65 0.4)"

text \<open>Index and middle finger stretched, the others curled.\<close>

definition two_finger_hand :: "landmark list" where
  "two_finger_hand =
     hand_sample (point 0.45 0.85) (point 0.5 0.4) (point 0.55 0.4) (point 0.6 0.8)
       (point 0.65 0.8)"

text \<open>All five fingers curled.\<close>

definition fist_hand :: "landmark list" where
  "fist_hand =
     hand_sample (point 0.45 0.85) (point 0.5 0.8) (point 0.55 0.8) (point 0.6 0.8)
       (point 0.65 0.8)"

text \<open>The binary64 value printed as \<^verbatim>\<open>0.044444444444444446\<close>, a frame delta of about 44 ms.\<close>

definition short_delta :: real where
  "short_delta = 6405119470038039 / 2 ^ 57"

definition sample_state :: gesture_state where
  "sample_state =
     \<lparr>treeState = SCATTERED, handPosition = Some (0.2, 0.1), isMagnified = True,
      photos = [], status = ''loading'', gestureLabel = []\<rparr>"

definition sample_ornament :: OrnamentData where
  "sample_ornament =
     \<lparr>treePosition = (1, 2, 3), scatterPosition = (0, 0, 0), rotation = (0, 0, 0),
      scale = 0.2, speed = 2, item_id = 0, item_type = light, color = ''#FFD700''\<rparr>"

definition sample_photo :: PhotoData where
  "sample_photo =
     \<lparr>treePosition = (1, 2, 3), scatterPosition = (0, 0, 0), rotation = (0, 0, 0),
      scale = 1.5, speed = 1, photo_id = ''photo-0'', url = ''blob:0'', aspectRatio = 1\<rparr>"

section \<open>The global morph factor\<close>

text \<open>The tick written out for each of the two targets.\<close>

lemma morphTick_TREE_SHAPE:
  "morphTick TREE_SHAPE delta m =
     (if m < 1 then min 1 (m + delta * 1.5) else if m > 1 then max 1 (m - delta * 1.5) else m)"
  by (simp add: morphTick_def morphNext_def morphTarget_def Let_def)

lemma morphTick_SCATTERED:
  "morphTick SCATTERED delta m =
     (if m < 0 then min 0 (m + delta * 1.5) else if m > 0 then max 0 (m - delta * 1.5) else m)"
  by (simp add: morphTick_def morphNext_def morphTarget_def Let_def)

lemma morphTick_rises:
  assumes "m \<le> 1" "0 \<le> delta"
  shows "m \<le> morphTick TREE_SHAPE delta m" "morphTick TREE_SHAPE delta m \<le> 1"
  using assms by (simp_all add: morphTick_TREE_SHAPE)

lemma morphTick_falls:
  assumes "0 \<le> m" "0 \<le> delta"
  shows "morphTick SCATTERED delta m \<le> m" "0 \<le> morphTick SCATTERED delta m"
  using assms by (simp_all add: morphTick_SCATTERED)

lemma morphFrames_rise_bounds:
  "\<forall>d \<in> set deltas. 0 \<le> d \<Longrightarrow> m \<le> 1 \<Longrightarrow>
     \<forall>x \<in> set (morphFrames TREE_SHAPE deltas m). m \<le> x \<and> x \<le> 1"
proof (induction deltas arbitrary: m)
  case Nil
  then show ?case by simp
next
  case (Cons d ds)
  have step: "m \<le> morphTick TREE_SHAPE d m" "morphTick TREE_SHAPE d m \<le> 1"
    using Cons.prems morphTick_rises [of m d] by simp_all
  have "\<forall>x \<in> set (morphFrames TREE_SHAPE ds (morphTick TREE_SHAPE d m)).
          morphTick TREE_SHAPE d m \<le> x \<and> x \<le> 1"
    using Cons.IH [of "morphTick TREE_SHAPE d m"] Cons.prems step by simp
  then show ?case using step Cons.prems by fastforce
qed

lemma morphFrames_fall_bounds:
  "\<forall>d \<in> set deltas. 0 \<le> d \<Longrightarrow> 0 \<le> m \<Longrightarrow>
     \<forall>x \<in> set (morphFrames SCATTERED deltas m). 0 \<le> x \<and> x \<le> m"
proof (induction deltas arbitrary: m)
  case Nil
  then show ?case by simp
next
  case (Cons d ds)
  have step: "morphTick SCATTERED d m \<le> m" "0 \<le> morphTick SCATTERED d m"
    using Cons.prems morphTick_falls [of m d] by simp_all
  have "\<forall>x \<in> set (morphFrames SCATTERED ds (morphTick SCATTERED d m)).
          0 \<le> x \<and> x \<le> morphTick SCATTERED d m"
    using Cons.IH [of "morphTick SCATTERED d m"] Cons.prems step by simp
  then show ?case using step Cons.prems by fastforce
qed

lemma morphFrames_rise_sorted:
  "\<forall>d \<in> set deltas. 0 \<le> d \<Longrightarrow> m \<le> 1 \<Longrightarrow>
     sorted_wrt (\<lambda>a b. a \<le> b) (morphFrames TREE_SHAPE deltas m)"
proof (induction deltas arbitrary: m)
  case Nil
  then show ?case by simp
next
  case (Cons d ds)
  have step: "m \<le> morphTick TREE_SHAPE d m" "morphTick TREE_SHAPE d m \<le> 1"
    using Cons.prems morphTick_rises [of m d] by simp_all
  have later: "\<forall>x \<in> set (morphFrames TREE_SHAPE ds (morphTick TREE_SHAPE d m)).
          morphTick TREE_SHAPE d m \<le> x \<and> x \<le> 1"
    using morphFrames_rise_bounds [of ds "morphTick TREE_SHAPE d m"] Cons.prems step by simp
  have "sorted_wrt (\<lambda>a b. a \<le> b) (morphFrames TREE_SHAPE ds (morphTick TREE_SHAPE d m))"
    using Cons.IH [of "morphTick TREE_SHAPE d m"] Cons.prems step by simp
  then show ?case using later step by fastforce
qed

lemma morphFrames_fall_sorted:
  "\<forall>d \<in> set deltas. 0 \<le> d \<Longrightarrow> 0 \<le> m \<Longrightarrow>
     sorted_wrt (\<lambda>a b. b \<le> a) (morphFrames SCATTERED deltas m)"
proof (induction deltas arbitrary: m)
  case Nil
  then show ?case by simp
next
  case (Cons d ds)
  have step: "morphTick SCATTERED d m \<le> m" "0 \<le> morphTick SCATTERED d m"
    using Cons.prems morphTick_falls [of m d] by simp_all
  have later: "\<forall>x \<in> set (morphFrames SCATTERED ds (morphTick SCATTERED d m)).
          0 \<le> x \<and> x \<le> morphTick SCATTERED d m"
    using morphFrames_fall_bounds [of ds "morphTick SCATTERED d m"] Cons.prems step by simp
  have "sorted_wrt (\<lambda>a b. b \<le> a) (morphFrames SCATTERED ds (morphTick SCATTERED d m))"
    using Cons.IH [of "morphTick SCATTERED d m"] Cons.prems step by simp
  then show ?case using later step by fastforce
qed

text \<open>
  Claim C1. One tick of the global morph update, from a factor \<open>m\<close> in \<open>[0,1]\<close> with a
  frame delta that is not negative: the target is 0 or 1, the new factor stays in
  \<open>[0,1]\<close>, lies between \<open>m\<close> and the target, and is no farther from the target than
  \<open>m\<close> was. Over any sequence of such ticks with the tree state held fixed, every factor
  stays in \<open>[0,1]\<close> and the sequence is monotonic: it never decreases toward target 1
  and never increases toward target 0.
\<close>

theorem morph_factor_bounded_no_overshoot:
  assumes "0 \<le> m" and "m \<le> 1" and "0 \<le> delta" and "\<forall>d \<in> set deltas. 0 \<le> d"
  shows "morphTarget ts \<in> {0, 1}
       \<and> 0 \<le> morphTick ts delta m \<and> morphTick ts delta m \<le> 1
       \<and> min m (morphTarget ts) \<le> morphTick ts delta m
       \<and> morphTick ts delta m \<le> max m (morphTarget ts)
       \<and> \<bar>morphTarget ts - morphTick ts delta m\<bar> \<le> \<bar>morphTarget ts - m\<bar>
       \<and> (\<forall>x \<in> set (morphFrames ts deltas m). 0 \<le> x \<and> x \<le> 1)
       \<and> (ts = TREE_SHAPE \<longrightarrow> sorted_wrt (\<lambda>a b. a \<le> b) (morphFrames ts deltas m))
       \<and> (ts = SCATTERED \<longrightarrow> sorted_wrt (\<lambda>a b. b \<le> a) (morphFrames ts deltas m))"
proof (cases ts)
  case SCATTERED
  have tick: "morphTick SCATTERED delta m \<le> m" "0 \<le> morphTick SCATTERED delta m"
    using assms morphTick_falls [of m delta] by simp_all
  have frames: "\<forall>x \<in> set (morphFrames SCATTERED deltas m). 0 \<le> x \<and> x \<le> 1"
    using morphFrames_fall_bounds [of deltas m] assms by fastforce
  have mono: "sorted_wrt (\<lambda>a b. b \<le> a) (morphFrames SCATTERED deltas m)"
    using morphFrames_fall_sorted [of deltas m] assms by simp
  show ?thesis using SCATTERED tick frames mono assms by (simp add: morphTarget_def)
next
  case TREE_SHAPE
  have tick: "m \<le> morphTick TREE_SHAPE delta m" "morphTick TREE_SHAPE delta m \<le> 1"
    using assms morphTick_rises [of m delta] by simp_all
  have frames: "\<forall>x \<in> set (morphFrames TREE_SHAPE deltas m). 0 \<le> x \<and> x \<le> 1"
    using morphFrames_rise_bounds [of deltas m] assms by fastforce
  have mono: "sorted_wrt (\<lambda>a b. a \<le> b) (morphFrames TREE_SHAPE deltas m)"
    using morphFrames_rise_sorted [of deltas m] assms by simp
  show ?thesis using TREE_SHAPE tick frames mono assms by (simp add: morphTarget_def)
qed

theorem morph_factor_bounded_no_overshoot_witness:
  "morphTick SCATTERED (1/60) (1/2) \<le> 1 / 2
     \<and> 0 \<le> morphTick SCATTERED (1/60) (1/2)
     \<and> sorted_wrt (\<lambda>a b. b \<le> a) (morphFrames SCATTERED [1/4, 1/4] (1/2))"
  using morph_factor_bounded_no_overshoot [of "1/2" "1/60" "[1/4, 1/4]" SCATTERED]
  by (simp add: morphTarget_def)

text \<open>Ticks with one fixed frame delta: the factor after \<open>k\<close> ticks in closed form.\<close>

lemma length_morphFrames: "length (morphFrames ts deltas m) = Suc (length deltas)"
  by (induction deltas arbitrary: m) simp_all

lemma clamp_then_add:
  fixes a q m :: real
  assumes "0 \<le> a" "0 \<le> q" "m \<le> 1"
  shows "min 1 ((if m < 1 then min 1 (m + a) else if m > 1 then max 1 (m - a) else m) + q)
           = min 1 (m + (a + q))"
  using assms by (auto simp: min_def)

lemma morphFrames_constant_delta:
  "0 \<le> d \<Longrightarrow> m \<le> 1 \<Longrightarrow> k \<le> n \<Longrightarrow>
     morphFrames TREE_SHAPE (replicate n d) m ! k = min 1 (m + real k * (d * 1.5))"
proof (induction n arbitrary: m k)
  case 0
  then show ?case by simp
next
  case (Suc n)
  show ?case
  proof (cases k)
    case 0
    then show ?thesis using Suc.prems by simp
  next
    case (Suc j)
    have le: "morphTick TREE_SHAPE d m \<le> 1"
      using Suc.prems morphTick_rises [of m d] by simp
    have "morphFrames TREE_SHAPE (replicate n d) (morphTick TREE_SHAPE d m) ! j
            = min 1 (morphTick TREE_SHAPE d m + real j * (d * 1.5))"
      using Suc.IH [of "morphTick TREE_SHAPE d m" j] Suc.prems le \<open>k = Suc j\<close> by simp
    moreover have "min 1 (morphTick TREE_SHAPE d m + real j * (d * 1.5))
            = min 1 (m + real (Suc j) * (d * 1.5))"
    proof -
      have split: "real (Suc j) * (d * 1.5) = d * 1.5 + real j * (d * 1.5)"
        by (simp add: algebra_simps)
      show ?thesis
        using Suc.prems clamp_then_add [of "d * 1.5" "real j * (d * 1.5)" m]
        by (simp only: split morphTick_TREE_SHAPE) simp
    qed
    ultimately show ?thesis using \<open>k = Suc j\<close> by simp
  qed
qed

lemma ticks_needed:
  assumes "0 < (s::real)"
  shows "1 \<le> real (nat \<lceil>1 / s\<rceil>) * s" and "k < nat \<lceil>1 / s\<rceil> \<Longrightarrow> real k * s < 1"
proof -
  have "1 / s \<le> real (nat \<lceil>1 / s\<rceil>)" by (rule real_nat_ceiling_ge)
  then have "(1 / s) * s \<le> real (nat \<lceil>1 / s\<rceil>) * s"
    using assms by (intro mult_right_mono) simp_all
  moreover have "(1 / s) * s = 1" using assms by simp
  ultimately show "1 \<le> real (nat \<lceil>1 / s\<rceil>) * s" by simp
next
  assume "k < nat \<lceil>1 / s\<rceil>"
  then have "int k < \<lceil>1 / s\<rceil>" by linarith
  then have "real k < 1 / s" by (simp add: less_ceiling_iff)
  then have "real k * s < (1 / s) * s"
    using assms by (intro mult_strict_right_mono) simp_all
  moreover have "(1 / s) * s = 1" using assms by simp
  ultimately show "real k * s < 1" by simp
qed

text \<open>In exact arithmetic the factor reaches 1 at tick \<open>ceil(1 / (d * 1.5))\<close> and not before.\<close>

lemma morphFrames_exact_reaches_one:
  assumes "0 < d"
  shows "last (morphFrames TREE_SHAPE (replicate (nat \<lceil>1 / (d * 1.5)\<rceil>) d) 0) = 1
       \<and> (\<forall>k < nat \<lceil>1 / (d * 1.5)\<rceil>.
             morphFrames TREE_SHAPE (replicate (nat \<lceil>1 / (d * 1.5)\<rceil>) d) 0 ! k < 1)"
proof -
  define n where "n = nat \<lceil>1 / (d * 1.5)\<rceil>"
  have s: "0 < d * 1.5" using assms by simp
  have closed: "\<And>k. k \<le> n \<Longrightarrow>
      morphFrames TREE_SHAPE (replicate n d) 0 ! k = min 1 (real k * (d * 1.5))"
    using morphFrames_constant_delta [of d 0 _ n] assms by simp
  have "last (morphFrames TREE_SHAPE (replicate n d) 0)
          = morphFrames TREE_SHAPE (replicate n d) 0 ! n"
    by (simp add: last_conv_nth length_morphFrames 
          flip: length_greater_0_conv)
  also have "\<dots> = min 1 (real n * (d * 1.5))" using closed [of n] by simp
  also have "\<dots> = 1" using ticks_needed(1) [OF s] by (simp add: n_def)
  finally have reach: "last (morphFrames TREE_SHAPE (replicate n d) 0) = 1" .
  have before: "\<forall>k < n. morphFrames TREE_SHAPE (replicate n d) 0 ! k < 1"
  proof (intro allI impI)
    fix k assume "k < n"
    then have "real k * (d * 1.5) < 1" using ticks_needed(2) [OF s, of k] by (simp add: n_def)
    then show "morphFrames TREE_SHAPE (replicate n d) 0 ! k < 1"
      using closed [of k] \<open>k < n\<close> by simp
  qed
  show ?thesis using reach before by (simp add: n_def)
qed

text \<open>With positive frame deltas the factor rises strictly until it reaches 1.\<close>

lemma morphFrames_first: "morphFrames ts deltas m ! 0 = m"
  by (cases deltas) simp_all

lemma morphTick_strict_rise:
  "0 < delta \<Longrightarrow> m < 1 \<Longrightarrow> m < morphTick TREE_SHAPE delta m"
  by (simp add: morphTick_TREE_SHAPE)

lemma morphFrames_strict_rise:
  "\<forall>d \<in> set deltas. 0 < d \<Longrightarrow> m \<le> 1 \<Longrightarrow> i < length deltas \<Longrightarrow>
     morphFrames TREE_SHAPE deltas m ! Suc i \<le> 1
     \<and> (morphFrames TREE_SHAPE deltas m ! i < 1
          \<longrightarrow> morphFrames TREE_SHAPE deltas m ! i < morphFrames TREE_SHAPE deltas m ! Suc i)"
proof (induction deltas arbitrary: m i)
  case Nil
  then show ?case by simp
next
  case (Cons d ds)
  have d: "0 < d" using Cons.prems by simp
  have le: "morphTick TREE_SHAPE d m \<le> 1"
    using Cons.prems d morphTick_rises [of m d] by simp
  show ?case
  proof (cases i)
    case 0
    then show ?thesis
      using le d morphTick_strict_rise [of d m] by (simp add: morphFrames_first)
  next
    case (Suc j)
    then show ?thesis
      using Cons.IH [of "morphTick TREE_SHAPE d m" j] Cons.prems le by simp
  qed
qed

text \<open>
  Claim C10. At startup the tree state is \<open>TREE_SHAPE\<close> (formed) while the morph factor
  is 0, so the target is 1. With no input the tree state stays as it is, and over any
  sequence of ticks with positive frame deltas the morph factor never exceeds 1 and
  strictly increases on every tick that starts below 1; the first tick already moves it
  above 0, and with a fixed positive frame delta it reaches 1 after finitely many ticks.
\<close>

theorem startup_morphs_toward_formed:
  assumes "\<forall>d \<in> set deltas. 0 < d" and "i < length deltas" and "0 < delta"
  shows "treeState initial_app_state = TREE_SHAPE
       \<and> initial_smoothMorph = 0
       \<and> morphTarget (treeState initial_app_state) = 1
       \<and> morphFrames (treeState initial_app_state) deltas initial_smoothMorph ! Suc i \<le> 1
       \<and> (morphFrames (treeState initial_app_state) deltas initial_smoothMorph ! i < 1 \<longrightarrow>
            morphFrames (treeState initial_app_state) deltas initial_smoothMorph ! i
              < morphFrames (treeState initial_app_state) deltas initial_smoothMorph ! Suc i)
       \<and> initial_smoothMorph
            < morphTick (treeState initial_app_state) delta initial_smoothMorph
       \<and> (\<exists>n. last (morphFrames (treeState initial_app_state) (replicate n delta)
                      initial_smoothMorph) = 1)"
proof -
  have init: "treeState initial_app_state = TREE_SHAPE" "initial_smoothMorph = 0"
    by (simp_all add: initial_app_state_def initial_smoothMorph_def)
  have rise: "morphFrames TREE_SHAPE deltas 0 ! Suc i \<le> 1
     \<and> (morphFrames TREE_SHAPE deltas 0 ! i < 1
          \<longrightarrow> morphFrames TREE_SHAPE deltas 0 ! i < morphFrames TREE_SHAPE deltas 0 ! Suc i)"
    using morphFrames_strict_rise [of deltas 0 i] assms by simp
  have first: "0 < morphTick TREE_SHAPE delta 0"
    using morphTick_strict_rise [of delta 0] assms by simp
  define n where "n = nat \<lceil>1 / (delta * 1.5)\<rceil>"
  have s: "0 < delta * 1.5" using assms by simp
  have "last (morphFrames TREE_SHAPE (replicate n delta) 0)
          = morphFrames TREE_SHAPE (replicate n delta) 0 ! n"
    by (simp add: last_conv_nth length_morphFrames flip: length_greater_0_conv)
  also have "\<dots> = min 1 (real n * (delta * 1.5))"
    using morphFrames_constant_delta [of delta 0 n n] assms by simp
  also have "\<dots> = 1" using ticks_needed(1) [OF s] by (simp add: n_def)
  finally have "\<exists>n. last (morphFrames TREE_SHAPE (replicate n delta) 0) = 1" by blast
  then show ?thesis using init rise first by (simp add: morphTarget_def)
qed

theorem startup_morphs_toward_formed_witness:
  "morphFrames (treeState initial_app_state) [1/60, 1/30] initial_smoothMorph ! 1
     < morphFrames (treeState initial_app_state) [1/60, 1/30] initial_smoothMorph ! 2"
  using startup_morphs_toward_formed [of "[1/60, 1/30]" 1 "1/60"]
  by (simp add: initial_app_state_def initial_smoothMorph_def morphTick_TREE_SHAPE)

section \<open>The global morph factor in binary64 arithmetic\<close>

text \<open>Rounding to the nearest integer and to the nearest binary64 value.\<close>

lemma round_ties_even_near:
  "\<bar>of_int (round_ties_even q) - q\<bar> \<le> 1 / 2"
proof -
  have "of_int \<lfloor>q\<rfloor> \<le> q" "q < of_int \<lfloor>q\<rfloor> + 1" by linarith+
  then show ?thesis by (auto simp add: round_ties_even_def Let_def)
qed

lemma round_ties_even_eval:
  assumes "\<bar>q - of_int k\<bar> < 1 / 2"
  shows "round_ties_even q = k"
proof (cases "of_int k \<le> q")
  case True
  then have "\<lfloor>q\<rfloor> = k" using assms by (intro floor_unique) linarith+
  then show ?thesis using assms True by (simp add: round_ties_even_def Let_def)
next
  case False
  then have "\<lfloor>q\<rfloor> = k - 1" using assms by (intro floor_unique) (simp; linarith)+
  then show ?thesis using assms False by (simp add: round_ties_even_def Let_def)
qed

lemma round_ties_even_tie:
  assumes "q = of_int k + 1 / 2"
  shows "round_ties_even q = (if even k then k else k + 1)"
proof -
  have "\<lfloor>q\<rfloor> = k" using assms by (intro floor_unique) simp_all
  then show ?thesis using assms by (simp add: round_ties_even_def Let_def)
qed

lemma binary64_exponent_in_binade:
  assumes "2 powi e \<le> x" and "x < 2 powi (e + 1)" and "- 1022 \<le> e"
  shows "binary64_exponent x = e"
proof -
  have "0 < (2::real) powi e" by simp
  then have pos: "0 < x" using assms(1) by linarith
  have lo: "2 powr real_of_int e = 2 powi e"
    by (rule powr_real_of_int') simp_all
  have "2 powr (real_of_int e + 1) = 2 powr real_of_int (e + 1)" by simp
  also have "\<dots> = 2 powi (e + 1)" by (rule powr_real_of_int') simp_all
  finally have hi: "2 powr (real_of_int e + 1) = 2 powi (e + 1)" .
  have "2 powr (real_of_int e) \<le> x" "x < 2 powr (real_of_int e + 1)"
    using assms lo hi by simp_all
  then have "\<lfloor>log 2 x\<rfloor> = e" using pos by (simp add: floor_log_eq_powr_iff)
  then show ?thesis using pos assms(3) by (simp add: binary64_exponent_def)
qed

lemma round_binary64_in_binade:
  assumes "2 powi e \<le> x" and "x < 2 powi (e + 1)" and "- 1022 \<le> e"
  shows "round_binary64 x
           = of_int (round_ties_even (x / 2 powi (e - 52))) * 2 powi (e - 52)"
proof -
  have "0 < (2::real) powi e" by simp
  then have pos: "0 < x" using assms(1) by linarith
  show ?thesis
    using pos binary64_exponent_in_binade [OF assms]
    by (simp add: round_binary64_def Let_def)
qed


lemma round_binary64_lower:
  assumes "2 powi (- 1022) \<le> x"
  shows "x * (1 - 1 / 2 ^ 53) \<le> round_binary64 x"
proof -
  define e where "e = \<lfloor>log 2 x\<rfloor>"
  have "0 < (2::real) powi (- 1022)" by (rule zero_less_power_int) simp
  then have pos: "0 < x" using assms by linarith
  have "2 powr real_of_int e \<le> x \<and> x < 2 powr (real_of_int e + 1)"
    using floor_log_eq_powr_iff [of x 2 e] pos by (simp add: e_def)
  moreover have "2 powr real_of_int e = 2 powi e"
    by (rule powr_real_of_int') simp_all
  moreover have "2 powr (real_of_int e + 1) = 2 powi (e + 1)"
  proof -
    have "2 powr (real_of_int e + 1) = 2 powr real_of_int (e + 1)" by simp
    also have "\<dots> = 2 powi (e + 1)" by (rule powr_real_of_int') simp_all
    finally show ?thesis .
  qed
  ultimately have binade: "2 powi e \<le> x" "x < 2 powi (e + 1)" by simp_all
  have normal: "- 1022 \<le> e"
  proof (rule ccontr)
    assume "\<not> - 1022 \<le> e"
    then have "e + 1 \<le> - 1022" by linarith
    then have "(2::real) powi (e + 1) \<le> 2 powi (- 1022)"
      by (rule power_int_increasing) simp
    then show False using assms binade(2) by linarith
  qed
  define ulp :: real where "ulp = 2 powi (e - 52)"
  have ulp_pos: "0 < ulp" by (simp add: ulp_def)
  have ulp_eq: "ulp = 2 powi e / 2 ^ 52" by (simp add: ulp_def power_int_diff)
  have rd: "round_binary64 x = of_int (round_ties_even (x / ulp)) * ulp"
    unfolding ulp_def by (rule round_binary64_in_binade [OF binade normal])
  have "x / ulp - 1 / 2 \<le> of_int (round_ties_even (x / ulp))"
    using round_ties_even_near [of "x / ulp"] by linarith
  then have "(x / ulp - 1 / 2) * ulp \<le> of_int (round_ties_even (x / ulp)) * ulp"
    using ulp_pos by (intro mult_right_mono) simp_all
  moreover have "(x / ulp - 1 / 2) * ulp = x - ulp / 2"
    using ulp_pos by (simp add: algebra_simps)
  moreover have "ulp / 2 \<le> x / 2 ^ 53"
    using binade(1) by (simp add: ulp_eq)
  ultimately have "x - x / 2 ^ 53 \<le> round_binary64 x" using rd by linarith
  then show ?thesis by (simp add: algebra_simps)
qed


text \<open>The rounded tick toward target 1, and a lower bound on the rounded sums.\<close>

lemma morphTick_binary64_TREE_SHAPE:
  "morphTick_binary64 TREE_SHAPE d m =
     (if m < 1 then min 1 (round_binary64 (m + round_binary64 (d * 1.5)))
      else if m > 1 then max 1 (round_binary64 (m - round_binary64 (d * 1.5)))
      else m)"
  by (simp add: morphTick_binary64_def morphNext_binary64_def morphTarget_def Let_def)

lemma morphFrames_binary64_first: "morphFrames_binary64 ts deltas m ! 0 = m"
  by (cases deltas) simp_all

lemma length_morphFrames_binary64:
  "length (morphFrames_binary64 ts deltas m) = Suc (length deltas)"
  by (induction deltas arbitrary: m) simp_all

lemma morphFrames_binary64_step:
  "k < n \<Longrightarrow>
     morphFrames_binary64 ts (replicate n d) m ! Suc k
       = morphTick_binary64 ts d (morphFrames_binary64 ts (replicate n d) m ! k)"
proof (induction n arbitrary: m k)
  case 0
  then show ?case by simp
next
  case (Suc n)
  show ?case
  proof (cases k)
    case 0
    then show ?thesis by (simp add: morphFrames_binary64_first)
  next
    case (Suc j)
    then show ?thesis using Suc.IH [of j "morphTick_binary64 ts d m"] Suc.prems by simp
  qed
qed

lemma binary64_rise:
  fixes d :: real
  defines "s \<equiv> round_binary64 (d * 1.5)"
  assumes normal: "2 powi (- 1022) \<le> s"
  shows "k \<le> n \<Longrightarrow>
           0 \<le> morphFrames_binary64 TREE_SHAPE (replicate n d) 0 ! k
         \<and> morphFrames_binary64 TREE_SHAPE (replicate n d) 0 ! k \<le> 1
         \<and> min 1 (real k * s * (1 - 1 / 2 ^ 53) ^ k)
             \<le> morphFrames_binary64 TREE_SHAPE (replicate n d) 0 ! k"
proof (induction k)
  case 0
  then show ?case by (simp add: morphFrames_binary64_first)
next
  case (Suc k)
  define r :: real where "r = 1 - 1 / 2 ^ 53"
  define x where "x = morphFrames_binary64 TREE_SHAPE (replicate n d) 0 ! k"
  have r: "0 \<le> r" "r \<le> 1" by (simp_all add: r_def)
  have "0 < (2::real) powi (- 1022)" by (rule zero_less_power_int) simp
  then have s_pos: "0 < s" using normal by linarith
  have IH: "0 \<le> x" "x \<le> 1" "min 1 (real k * s * r ^ k) \<le> x"
    using Suc.IH Suc.prems by (simp_all add: x_def r_def)
  have next_eq: "morphFrames_binary64 TREE_SHAPE (replicate n d) 0 ! Suc k
                   = morphTick_binary64 TREE_SHAPE d x"
    unfolding x_def using Suc.prems by (intro morphFrames_binary64_step) simp
  show ?case
  proof (cases "x < 1")
    case False
    then have "x = 1" using IH by simp
    then have "morphTick_binary64 TREE_SHAPE d x = 1"
      by (simp add: morphTick_binary64_TREE_SHAPE)
    then show ?thesis using next_eq by simp
  next
    case True
    have tick: "morphTick_binary64 TREE_SHAPE d x = min 1 (round_binary64 (x + s))"
      using True by (simp add: morphTick_binary64_TREE_SHAPE s_def)
    have "2 powi (- 1022) \<le> x + s" using normal IH(1) by linarith
    then have low: "(x + s) * r \<le> round_binary64 (x + s)"
      unfolding r_def by (rule round_binary64_lower)
    have A: "real k * s * r ^ k \<le> x" using IH(3) True by (simp add: min_def split: if_splits)
    have rk: "r ^ k \<le> 1" using r by (simp add: power_le_one)
    have "s * r ^ k \<le> s * 1" using rk s_pos by (intro mult_left_mono) simp_all
    then have "real k * s * r ^ k + s * r ^ k \<le> x + s" using A by linarith
    then have "(real k * s * r ^ k + s * r ^ k) * r \<le> (x + s) * r"
      using r by (intro mult_right_mono) simp_all
    moreover have "real (Suc k) * s * r ^ Suc k = (real k * s * r ^ k + s * r ^ k) * r"
      by (simp add: algebra_simps)
    ultimately have grow: "real (Suc k) * s * r ^ Suc k \<le> round_binary64 (x + s)"
      using low by linarith
    have "0 \<le> (x + s) * r" using IH(1) s_pos r by simp
    then have nonneg: "0 \<le> round_binary64 (x + s)" using low by linarith
    show ?thesis
      using next_eq tick grow nonneg by (simp add: r_def min_def)
  qed
qed


lemma last_morphFrames_binary64:
  "last (morphFrames_binary64 ts (replicate n d) m)
     = morphFrames_binary64 ts (replicate n d) m ! n"
  by (simp add: last_conv_nth length_morphFrames_binary64 flip: length_greater_0_conv)

lemma binary64_step_normal:
  assumes "1 / 2 ^ 20 \<le> d * 1.5"
  shows "d * 1.5 * (1 - 1 / 2 ^ 53) \<le> round_binary64 (d * 1.5)"
    and "2 powi (- 1022) \<le> round_binary64 (d * 1.5)"
proof -
  have small: "(2::real) powi (- 1022) \<le> 1 / 2 ^ 21"
  proof -
    have "(2::real) powi (- 1022) \<le> 2 powi (- 21)"
      by (rule power_int_increasing) simp_all
    then show ?thesis by (simp add: power_int_minus_divide)
  qed
  then have "2 powi (- 1022) \<le> d * 1.5" using assms by (simp del: power_int_numeral_neg_numeral) 
  then show low: "d * 1.5 * (1 - 1 / 2 ^ 53) \<le> round_binary64 (d * 1.5)"
    by (rule round_binary64_lower)
  have "(1 / 2 ^ 20) * (1 - 1 / 2 ^ 53) \<le> d * 1.5 * (1 - 1 / 2 ^ 53)"
    using assms by (intro mult_right_mono) simp_all
  moreover have "(1 / 2 ^ 21 :: real) \<le> (1 / 2 ^ 20) * (1 - 1 / 2 ^ 53)" by simp
  ultimately show "2 powi (- 1022) \<le> round_binary64 (d * 1.5)"
    using low small by linarith
qed

lemma binary64_ticks_bound:
  fixes a :: real
  assumes "1 / 2 ^ 20 \<le> a"
  shows "1 \<le> real (nat \<lceil>1 / a\<rceil>) * a" and "real (nat \<lceil>1 / a\<rceil>) \<le> 2 ^ 20 + 1"
proof -
  have "0 < (1 / 2 ^ 20 :: real)" by simp
  then have pos: "0 < a" using assms by linarith
  show "1 \<le> real (nat \<lceil>1 / a\<rceil>) * a" using ticks_needed(1) [OF pos] .
  have "1 / a \<le> 2 ^ 20"
    using assms pos by (simp add: field_simps)
  moreover have "real_of_int \<lceil>1 / a\<rceil> < 1 / a + 1" by linarith
  moreover have "0 < 1 / a" using pos by simp
  then have "0 \<le> \<lceil>1 / a\<rceil>" by linarith
  then have "real (nat \<lceil>1 / a\<rceil>) = real_of_int \<lceil>1 / a\<rceil>" by simp
  ultimately show "real (nat \<lceil>1 / a\<rceil>) \<le> 2 ^ 20 + 1" by linarith
qed

lemma binary64_reaches_one:
  assumes "1 / 2 ^ 20 \<le> d * 1.5"
  shows "last (morphFrames_binary64 TREE_SHAPE
                 (replicate (Suc (nat \<lceil>1 / (d * 1.5)\<rceil>)) d) 0) = 1"
proof -
  define a where "a = d * 1.5"
  define n where "n = nat \<lceil>1 / a\<rceil>"
  define s where "s = round_binary64 a"
  define u :: real where "u = 1 / 2 ^ 53"
  define r :: real where "r = 1 - u"
  have a: "1 / 2 ^ 20 \<le> a" using assms by (simp add: a_def)
  have "0 < (1 / 2 ^ 20 :: real)" by simp
  then have a_pos: "0 < a" using a by linarith
  have r: "0 \<le> r" "r \<le> 1" by (simp_all add: r_def u_def)
  have na: "1 \<le> real n * a" and n_le: "real n \<le> 2 ^ 20 + 1"
    using binary64_ticks_bound [OF a] by (simp_all add: n_def)
  have s_low: "a * r \<le> s" and normal: "2 powi (- 1022) \<le> s"
    using binary64_step_normal [OF assms] by (simp_all add: s_def a_def r_def u_def)
  have inv: "morphFrames_binary64 TREE_SHAPE (replicate (Suc n) d) 0 ! Suc n \<le> 1"
    "min 1 (real (Suc n) * s * r ^ Suc n)
       \<le> morphFrames_binary64 TREE_SHAPE (replicate (Suc n) d) 0 ! Suc n"
    using binary64_rise [of d "Suc n" "Suc n"] normal
    by (simp_all add: s_def a_def r_def u_def)
  have bern: "1 - real (n + 2) * u \<le> r ^ (n + 2)"
    using Bernoulli_inequality [of "- u" "n + 2"] by (simp add: r_def u_def)
  have b: "real (n + 2) * u \<le> (2 ^ 20 + 3) * u"
    using n_le by (intro mult_right_mono) (simp_all add: u_def)
  have tail: "1 - (2 ^ 20 + 3) * u \<le> r ^ (n + 2)" using bern b by linarith
  have tail_pos: "0 \<le> 1 - (2 ^ 20 + 3) * u" by (simp add: u_def)
  have head: "1 + a \<le> real (Suc n) * a" using na by (simp add: algebra_simps)
  have "(1 + a) * (1 - (2 ^ 20 + 3) * u) \<le> real (Suc n) * a * r ^ (n + 2)"
    using head tail tail_pos a_pos by (intro mult_mono) simp_all
  moreover have "1 \<le> (1 + a) * (1 - (2 ^ 20 + 3) * u)"
  proof -
    have "(1 / 2 ^ 20) * (1 - (2 ^ 20 + 3) * u) \<le> a * (1 - (2 ^ 20 + 3) * u)"
      using a tail_pos by (intro mult_right_mono) simp_all
    moreover have "(2 ^ 20 + 3) * u \<le> (1 / 2 ^ 20) * (1 - (2 ^ 20 + 3) * u)"
      by (simp add: u_def)
    moreover have "(1 + a) * (1 - (2 ^ 20 + 3) * u)
                     = 1 - (2 ^ 20 + 3) * u + a * (1 - (2 ^ 20 + 3) * u)"
      by (simp add: algebra_simps)
    ultimately show ?thesis by linarith
  qed
  moreover have "real (Suc n) * a * r ^ (n + 2) \<le> real (Suc n) * s * r ^ Suc n"
  proof -
    have "real (Suc n) * a * r ^ (n + 2) = (real (Suc n) * r ^ Suc n) * (a * r)"
      by (simp add: algebra_simps)
    also have "\<dots> \<le> (real (Suc n) * r ^ Suc n) * s"
      using s_low r by (intro mult_left_mono) simp_all
    finally show ?thesis by (simp add: algebra_simps)
  qed
  ultimately have "1 \<le> real (Suc n) * s * r ^ Suc n" by linarith
  then have "morphFrames_binary64 TREE_SHAPE (replicate (Suc n) d) 0 ! Suc n = 1"
    using inv by (simp add: min_def split: if_splits)
  then show ?thesis
    unfolding last_morphFrames_binary64 n_def a_def .
qed

lemma binary64_close_to_one:
  assumes "1 / 2 ^ 20 \<le> d * 1.5"
  shows "1 - (real (nat \<lceil>1 / (d * 1.5)\<rceil>) + 1) / 2 ^ 53
           \<le> last (morphFrames_binary64 TREE_SHAPE (replicate (nat \<lceil>1 / (d * 1.5)\<rceil>) d) 0)"
    and "last (morphFrames_binary64 TREE_SHAPE (replicate (nat \<lceil>1 / (d * 1.5)\<rceil>) d) 0) \<le> 1"
proof -
  define a where "a = d * 1.5"
  define n where "n = nat \<lceil>1 / a\<rceil>"
  define s where "s = round_binary64 a"
  define u :: real where "u = 1 / 2 ^ 53"
  define r :: real where "r = 1 - u"
  have a: "1 / 2 ^ 20 \<le> a" using assms by (simp add: a_def)
  have r: "0 \<le> r" "r \<le> 1" by (simp_all add: r_def u_def)
  have na: "1 \<le> real n * a" using binary64_ticks_bound(1) [OF a] by (simp add: n_def)
  have s_low: "a * r \<le> s" and normal: "2 powi (- 1022) \<le> s"
    using binary64_step_normal [OF assms] by (simp_all add: s_def a_def r_def u_def)
  have inv: "morphFrames_binary64 TREE_SHAPE (replicate n d) 0 ! n \<le> 1"
    "min 1 (real n * s * r ^ n) \<le> morphFrames_binary64 TREE_SHAPE (replicate n d) 0 ! n"
    using binary64_rise [of d n n] normal by (simp_all add: s_def a_def r_def u_def)
  have bern: "1 - real (n + 1) * u \<le> r ^ (n + 1)"
    using Bernoulli_inequality [of "- u" "n + 1"] by (simp add: r_def u_def)
  have "r ^ (n + 1) * 1 \<le> r ^ (n + 1) * (real n * a)"
    using na r by (intro mult_left_mono) simp_all
  also have "\<dots> = (real n * r ^ n) * (a * r)" by (simp add: algebra_simps)
  also have "\<dots> \<le> (real n * r ^ n) * s"
    using s_low r by (intro mult_left_mono) simp_all
  finally have "r ^ (n + 1) \<le> real n * s * r ^ n" by (simp add: algebra_simps)
  then have "1 - real (n + 1) * u \<le> real n * s * r ^ n" using bern by linarith
  moreover have "1 - real (n + 1) * u \<le> 1" by (simp add: u_def)
  ultimately have "1 - real (n + 1) * u \<le> min 1 (real n * s * r ^ n)" by simp
  moreover have "real (n + 1) * u = (real n + 1) / 2 ^ 53" by (simp add: u_def)
  ultimately have "1 - (real n + 1) / 2 ^ 53
                     \<le> morphFrames_binary64 TREE_SHAPE (replicate n d) 0 ! n"
    using inv(2) by linarith
  then show "1 - (real (nat \<lceil>1 / (d * 1.5)\<rceil>) + 1) / 2 ^ 53
           \<le> last (morphFrames_binary64 TREE_SHAPE (replicate (nat \<lceil>1 / (d * 1.5)\<rceil>) d) 0)"
    unfolding last_morphFrames_binary64 n_def a_def .
  show "last (morphFrames_binary64 TREE_SHAPE (replicate (nat \<lceil>1 / (d * 1.5)\<rceil>) d) 0) \<le> 1"
    using inv(1) unfolding last_morphFrames_binary64 n_def a_def .
qed


text \<open>
  Claim C2, as amended. From morph factor 0, with the target held at 1 and a fixed frame
  delta \<open>d\<close> with \<open>2 ^ - 20 \<le> d * 1.5 \<le> 2 ^ 20\<close>, let \<open>n = ceil(1 / (d * 1.5))\<close>. In the
  binary64 arithmetic of the code the factor after \<open>n\<close> ticks is at most 1 and at least
  \<open>1 - (n + 1) / 2 ^ 53\<close>, and after \<open>n + 1\<close> ticks it is exactly 1. In exact arithmetic
  the factor is exactly 1 after \<open>n\<close> ticks and below 1 after any smaller number of ticks.
\<close>

theorem morph_reaches_one_within_one_more_tick:
  assumes "1 / 2 ^ 20 \<le> d * 1.5" and "d * 1.5 \<le> 2 ^ 20"
  shows "last (morphFrames_binary64 TREE_SHAPE
                 (replicate (Suc (nat \<lceil>1 / (d * 1.5)\<rceil>)) d) 0) = 1
       \<and> 1 - (real (nat \<lceil>1 / (d * 1.5)\<rceil>) + 1) / 2 ^ 53
           \<le> last (morphFrames_binary64 TREE_SHAPE (replicate (nat \<lceil>1 / (d * 1.5)\<rceil>) d) 0)
       \<and> last (morphFrames_binary64 TREE_SHAPE (replicate (nat \<lceil>1 / (d * 1.5)\<rceil>) d) 0) \<le> 1
       \<and> last (morphFrames TREE_SHAPE (replicate (nat \<lceil>1 / (d * 1.5)\<rceil>) d) 0) = 1
       \<and> (\<forall>k < nat \<lceil>1 / (d * 1.5)\<rceil>.
             morphFrames TREE_SHAPE (replicate (nat \<lceil>1 / (d * 1.5)\<rceil>) d) 0 ! k < 1)"
proof -
  have "0 < (1 / 2 ^ 20 :: real)" by simp
  then have "0 < d * 1.5" using assms(1) by linarith
  then have "0 < d" by simp
  then show ?thesis
    using binary64_reaches_one [OF assms(1)] binary64_close_to_one [OF assms(1)]
      morphFrames_exact_reaches_one [of d]
    by blast
qed

theorem morph_reaches_one_within_one_more_tick_witness:
  "last (morphFrames_binary64 TREE_SHAPE
           (replicate (Suc (nat \<lceil>1 / (short_delta * 1.5)\<rceil>)) short_delta) 0) = 1"
  by (rule morph_reaches_one_within_one_more_tick [of short_delta, THEN conjunct1])
    (simp_all add: short_delta_def)

text \<open>Evaluating the rounding at a given number.\<close>

lemma round_binary64_eval:
  assumes "2 powi e \<le> x" and "x < 2 powi (e + 1)" and "- 1022 \<le> e"
    and "\<bar>x / 2 powi (e - 52) - of_int k\<bar> < 1 / 2"
  shows "round_binary64 x = of_int k * 2 powi (e - 52)"
  using round_binary64_in_binade [OF assms(1,2,3)] round_ties_even_eval [OF assms(4)] by simp

lemma round_binary64_eval_tie:
  assumes "2 powi e \<le> x" and "x < 2 powi (e + 1)" and "- 1022 \<le> e"
    and "x / 2 powi (e - 52) = of_int k + 1 / 2"
  shows "round_binary64 x = of_int (if even k then k else k + 1) * 2 powi (e - 52)"
  using round_binary64_in_binade [OF assms(1,2,3)] round_ties_even_tie [OF assms(4)] by simp

lemma morphTick_binary64_below:
  assumes "m < 1" and "round_binary64 (d * 1.5) = s" and "round_binary64 (m + s) = x"
    and "x \<le> 1"
  shows "morphTick_binary64 TREE_SHAPE d m = x"
  using assms by (simp add: morphTick_binary64_TREE_SHAPE)

lemma morphFrames_binary64_nonempty: "morphFrames_binary64 ts deltas m \<noteq> []"
  by (cases deltas) simp_all

lemma morphFrames_binary64_run:
  assumes "morphTick_binary64 ts d m = m'"
    and "last (morphFrames_binary64 ts (replicate n d) m') = z"
    and "k = Suc n"
  shows "last (morphFrames_binary64 ts (replicate k d) m) = z"
  using assms by (simp add: morphFrames_binary64_nonempty)

text \<open>
  Claim C2 as stated fails in the arithmetic of the code. For the frame delta
  \<^verbatim>\<open>0.044444444444444446\<close>, itself a binary64 value, \<open>ceil(1 / (d * 1.5))\<close> is 15, and
  after 15 ticks from 0 the rounded sums have reached \<open>1 - 2 ^ - 53\<close>, the binary64 value
  just below 1, not 1.
\<close>

theorem morph_binary64_short_of_one_counterexample:
  "round_binary64 short_delta = short_delta
   \<and> nat \<lceil>1 / (short_delta * 1.5)\<rceil> = 15
   \<and> last (morphFrames_binary64 TREE_SHAPE (replicate 15 short_delta) 0) = 1 - 1 / 2 ^ 53"
proof -
  have double: "round_binary64 short_delta = short_delta"
    using round_binary64_eval [of "-5" short_delta "6405119470038039"] by (simp add: short_delta_def)
  have ticks: "nat \<lceil>1 / (short_delta * 1.5)\<rceil> = 15"
  proof -
    have "\<lceil>1 / (short_delta * 1.5)\<rceil> = 15"
      by (rule ceiling_unique) (simp_all add: short_delta_def)
    then show ?thesis by simp
  qed
  have step: "round_binary64 (short_delta * 1.5) = 4803839602528529 / 2 ^ 56"
    using round_binary64_eval [of "-4" "short_delta * 1.5" "4803839602528529"] by (simp add: short_delta_def)
  have a0: "round_binary64 (0 + 4803839602528529 / 2 ^ 56) = 4803839602528529 / 2 ^ 56"
    using round_binary64_eval [of "-4" "0 + 4803839602528529 / 2 ^ 56" "4803839602528529"] by simp
  have t0: "morphTick_binary64 TREE_SHAPE short_delta (0) = 4803839602528529 / 2 ^ 56"
    by (rule morphTick_binary64_below [OF _ step a0]) simp_all
  have a1: "round_binary64 (4803839602528529 / 2 ^ 56 + 4803839602528529 / 2 ^ 56) = 4803839602528529 / 2 ^ 55"
    using round_binary64_eval [of "-3" "4803839602528529 / 2 ^ 56 + 4803839602528529 / 2 ^ 56" "4803839602528529"] by simp
  have t1: "morphTick_binary64 TREE_SHAPE short_delta (4803839602528529 / 2 ^ 56) = 4803839602528529 / 2 ^ 55"
    by (rule morphTick_binary64_below [OF _ step a1]) simp_all
  have a2: "round_binary64 (4803839602528529 / 2 ^ 55 + 4803839602528529 / 2 ^ 56) = 3602879701896397 / 2 ^ 54"
    using round_binary64_eval_tie [of "-3" "4803839602528529 / 2 ^ 55 + 4803839602528529 / 2 ^ 56" "7205759403792793"] by simp
  have t2: "morphTick_binary64 TREE_SHAPE short_delta (4803839602528529 / 2 ^ 55) = 3602879701896397 / 2 ^ 54"
    by (rule morphTick_binary64_below [OF _ step a2]) simp_all
  have a3: "round_binary64 (3602879701896397 / 2 ^ 54 + 4803839602528529 / 2 ^ 56) = 4803839602528529 / 2 ^ 54"
    using round_binary64_eval [of "-2" "3602879701896397 / 2 ^ 54 + 4803839602528529 / 2 ^ 56" "4803839602528529"] by simp
  have t3: "morphTick_binary64 TREE_SHAPE short_delta (3602879701896397 / 2 ^ 54) = 4803839602528529 / 2 ^ 54"
    by (rule morphTick_binary64_below [OF _ step a3]) simp_all
  have a4: "round_binary64 (4803839602528529 / 2 ^ 54 + 4803839602528529 / 2 ^ 56) = 6004799503160661 / 2 ^ 54"
    using round_binary64_eval [of "-2" "4803839602528529 / 2 ^ 54 + 4803839602528529 / 2 ^ 56" "6004799503160661"] by simp
  have t4: "morphTick_binary64 TREE_SHAPE short_delta (4803839602528529 / 2 ^ 54) = 6004799503160661 / 2 ^ 54"
    by (rule morphTick_binary64_below [OF _ step a4]) simp_all
  have a5: "round_binary64 (6004799503160661 / 2 ^ 54 + 4803839602528529 / 2 ^ 56) = 7205759403792793 / 2 ^ 54"
    using round_binary64_eval [of "-2" "6004799503160661 / 2 ^ 54 + 4803839602528529 / 2 ^ 56" "7205759403792793"] by simp
  have t5: "morphTick_binary64 TREE_SHAPE short_delta (6004799503160661 / 2 ^ 54) = 7205759403792793 / 2 ^ 54"
    by (rule morphTick_binary64_below [OF _ step a5]) simp_all
  have a6: "round_binary64 (7205759403792793 / 2 ^ 54 + 4803839602528529 / 2 ^ 56) = 8406719304424925 / 2 ^ 54"
    using round_binary64_eval [of "-2" "7205759403792793 / 2 ^ 54 + 4803839602528529 / 2 ^ 56" "8406719304424925"] by simp
  have t6: "morphTick_binary64 TREE_SHAPE short_delta (7205759403792793 / 2 ^ 54) = 8406719304424925 / 2 ^ 54"
    by (rule morphTick_binary64_below [OF _ step a6]) simp_all
  have a7: "round_binary64 (8406719304424925 / 2 ^ 54 + 4803839602528529 / 2 ^ 56) = 4803839602528529 / 2 ^ 53"
    using round_binary64_eval [of "-1" "8406719304424925 / 2 ^ 54 + 4803839602528529 / 2 ^ 56" "4803839602528529"] by simp
  have t7: "morphTick_binary64 TREE_SHAPE short_delta (8406719304424925 / 2 ^ 54) = 4803839602528529 / 2 ^ 53"
    by (rule morphTick_binary64_below [OF _ step a7]) simp_all
  have a8: "round_binary64 (4803839602528529 / 2 ^ 53 + 4803839602528529 / 2 ^ 56) = 5404319552844595 / 2 ^ 53"
    using round_binary64_eval [of "-1" "4803839602528529 / 2 ^ 53 + 4803839602528529 / 2 ^ 56" "5404319552844595"] by simp
  have t8: "morphTick_binary64 TREE_SHAPE short_delta (4803839602528529 / 2 ^ 53) = 5404319552844595 / 2 ^ 53"
    by (rule morphTick_binary64_below [OF _ step a8]) simp_all
  have a9: "round_binary64 (5404319552844595 / 2 ^ 53 + 4803839602528529 / 2 ^ 56) = 6004799503160661 / 2 ^ 53"
    using round_binary64_eval [of "-1" "5404319552844595 / 2 ^ 53 + 4803839602528529 / 2 ^ 56" "6004799503160661"] by simp
  have t9: "morphTick_binary64 TREE_SHAPE short_delta (5404319552844595 / 2 ^ 53) = 6004799503160661 / 2 ^ 53"
    by (rule morphTick_binary64_below [OF _ step a9]) simp_all
  have a10: "round_binary64 (6004799503160661 / 2 ^ 53 + 4803839602528529 / 2 ^ 56) = 6605279453476727 / 2 ^ 53"
    using round_binary64_eval [of "-1" "6004799503160661 / 2 ^ 53 + 4803839602528529 / 2 ^ 56" "6605279453476727"] by simp
  have t10: "morphTick_binary64 TREE_SHAPE short_delta (6004799503160661 / 2 ^ 53) = 6605279453476727 / 2 ^ 53"
    by (rule morphTick_binary64_below [OF _ step a10]) simp_all
  have a11: "round_binary64 (6605279453476727 / 2 ^ 53 + 4803839602528529 / 2 ^ 56) = 7205759403792793 / 2 ^ 53"
    using round_binary64_eval [of "-1" "6605279453476727 / 2 ^ 53 + 4803839602528529 / 2 ^ 56" "7205759403792793"] by simp
  have t11: "morphTick_binary64 TREE_SHAPE short_delta (6605279453476727 / 2 ^ 53) = 7205759403792793 / 2 ^ 53"
    by (rule morphTick_binary64_below [OF _ step a11]) simp_all
  have a12: "round_binary64 (7205759403792793 / 2 ^ 53 + 4803839602528529 / 2 ^ 56) = 7806239354108859 / 2 ^ 53"
    using round_binary64_eval [of "-1" "7205759403792793 / 2 ^ 53 + 4803839602528529 / 2 ^ 56" "7806239354108859"] by simp
  have t12: "morphTick_binary64 TREE_SHAPE short_delta (7205759403792793 / 2 ^ 53) = 7806239354108859 / 2 ^ 53"
    by (rule morphTick_binary64_below [OF _ step a12]) simp_all
  have a13: "round_binary64 (7806239354108859 / 2 ^ 53 + 4803839602528529 / 2 ^ 56) = 8406719304424925 / 2 ^ 53"
    using round_binary64_eval [of "-1" "7806239354108859 / 2 ^ 53 + 4803839602528529 / 2 ^ 56" "8406719304424925"] by simp
  have t13: "morphTick_binary64 TREE_SHAPE short_delta (7806239354108859 / 2 ^ 53) = 8406719304424925 / 2 ^ 53"
    by (rule morphTick_binary64_below [OF _ step a13]) simp_all
  have a14: "round_binary64 (8406719304424925 / 2 ^ 53 + 4803839602528529 / 2 ^ 56) = 9007199254740991 / 2 ^ 53"
    using round_binary64_eval [of "-1" "8406719304424925 / 2 ^ 53 + 4803839602528529 / 2 ^ 56" "9007199254740991"] by simp
  have t14: "morphTick_binary64 TREE_SHAPE short_delta (8406719304424925 / 2 ^ 53) = 9007199254740991 / 2 ^ 53"
    by (rule morphTick_binary64_below [OF _ step a14]) simp_all
  have r15: "last (morphFrames_binary64 TREE_SHAPE (replicate 0 short_delta) (9007199254740991 / 2 ^ 53)) = 9007199254740991 / 2 ^ 53"
    by simp
  have r14: "last (morphFrames_binary64 TREE_SHAPE (replicate 1 short_delta) (8406719304424925 / 2 ^ 53)) = 9007199254740991 / 2 ^ 53"
    by (rule morphFrames_binary64_run [OF t14 r15]) simp
  have r13: "last (morphFrames_binary64 TREE_SHAPE (replicate 2 short_delta) (7806239354108859 / 2 ^ 53)) = 9007199254740991 / 2 ^ 53"
    by (rule morphFrames_binary64_run [OF t13 r14]) simp
  have r12: "last (morphFrames_binary64 TREE_SHAPE (replicate 3 short_delta) (7205759403792793 / 2 ^ 53)) = 9007199254740991 / 2 ^ 53"
    by (rule morphFrames_binary64_run [OF t12 r13]) simp
  have r11: "last (morphFrames_binary64 TREE_SHAPE (replicate 4 short_delta) (6605279453476727 / 2 ^ 53)) = 9007199254740991 / 2 ^ 53"
    by (rule morphFrames_binary64_run [OF t11 r12]) simp
  have r10: "last (morphFrames_binary64 TREE_SHAPE (replicate 5 short_delta) (6004799503160661 / 2 ^ 53)) = 9007199254740991 / 2 ^ 53"
    by (rule morphFrames_binary64_run [OF t10 r11]) simp
  have r9: "last (morphFrames_binary64 TREE_SHAPE (replicate 6 short_delta) (5404319552844595 / 2 ^ 53)) = 9007199254740991 / 2 ^ 53"
    by (rule morphFrames_binary64_run [OF t9 r10]) simp
  have r8: "last (morphFrames_binary64 TREE_SHAPE (replicate 7 short_delta) (4803839602528529 / 2 ^ 53)) = 9007199254740991 / 2 ^ 53"
    by (rule morphFrames_binary64_run [OF t8 r9]) simp
  have r7: "last (morphFrames_binary64 TREE_SHAPE (replicate 8 short_delta) (8406719304424925 / 2 ^ 54)) = 9007199254740991 / 2 ^ 53"
    by (rule morphFrames_binary64_run [OF t7 r8]) simp
  have r6: "last (morphFrames_binary64 TREE_SHAPE (replicate 9 short_delta) (7205759403792793 / 2 ^ 54)) = 9007199254740991 / 2 ^ 53"
    by (rule morphFrames_binary64_run [OF t6 r7]) simp
  have r5: "last (morphFrames_binary64 TREE_SHAPE (replicate 10 short_delta) (6004799503160661 / 2 ^ 54)) = 9007199254740991 / 2 ^ 53"
    by (rule morphFrames_binary64_run [OF t5 r6]) simp
  have r4: "last (morphFrames_binary64 TREE_SHAPE (replicate 11 short_delta) (4803839602528529 / 2 ^ 54)) = 9007199254740991 / 2 ^ 53"
    by (rule morphFrames_binary64_run [OF t4 r5]) simp
  have r3: "last (morphFrames_binary64 TREE_SHAPE (replicate 12 short_delta) (3602879701896397 / 2 ^ 54)) = 9007199254740991 / 2 ^ 53"
    by (rule morphFrames_binary64_run [OF t3 r4]) simp
  have r2: "last (morphFrames_binary64 TREE_SHAPE (replicate 13 short_delta) (4803839602528529 / 2 ^ 55)) = 9007199254740991 / 2 ^ 53"
    by (rule morphFrames_binary64_run [OF t2 r3]) simp
  have r1: "last (morphFrames_binary64 TREE_SHAPE (replicate 14 short_delta) (4803839602528529 / 2 ^ 56)) = 9007199254740991 / 2 ^ 53"
    by (rule morphFrames_binary64_run [OF t1 r2]) simp
  have r0: "last (morphFrames_binary64 TREE_SHAPE (replicate 15 short_delta) (0)) = 9007199254740991 / 2 ^ 53"
    by (rule morphFrames_binary64_run [OF t0 r1]) simp
  have "(9007199254740991 / 2 ^ 53 :: real) = 1 - 1 / 2 ^ 53" by simp
  then have final: "last (morphFrames_binary64 TREE_SHAPE (replicate 15 short_delta) 0) = 1 - 1 / 2 ^ 53"
    using r0 by (simp only:)
  show ?thesis using double ticks final by blast
qed

section \<open>Camera auto-rotation\<close>

text \<open>
  Claim C8. Whenever the effect runs on mounted controls, the auto-rotate flag it sets is
  true exactly when the tree state is \<open>TREE_SHAPE\<close> (formed), no hand position is
  present and the view is not magnified; in every other combination it is false. Without
  mounted controls there is no flag to set.
\<close>

theorem auto_rotate_only_formed_no_hand_not_magnified:
  "updateControls props None = None
   \<and> (\<exists>c'. updateControls props (Some c) = Some c'
          \<and> autoRotate c'
              = (treeState props = TREE_SHAPE \<and> handPosition props = None
                   \<and> \<not> isMagnified props))"
  by (simp add: updateControls_def)

section \<open>The sphere sampler\<close>

lemma sphere_norm:
  fixes r :: real
  shows "(r * sin p * cos t)\<^sup>2 + (r * sin p * sin t)\<^sup>2 + (r * cos p)\<^sup>2 = r\<^sup>2"
proof -
  have "(r * sin p * cos t)\<^sup>2 + (r * sin p * sin t)\<^sup>2 + (r * cos p)\<^sup>2
          = r\<^sup>2 * ((sin p)\<^sup>2 * ((cos t)\<^sup>2 + (sin t)\<^sup>2) + (cos p)\<^sup>2)"
    by (simp only: algebra_simps)
  also have "\<dots> = r\<^sup>2" by simp
  finally show ?thesis .
qed

lemma length_getRandomSpherePoint:
  "Vector3_length (getRandomSpherePoint radius u v w) = \<bar>root 3 w * radius\<bar>"
  by (simp add: Vector3_length_def getRandomSpherePoint_def Let_def sphere_norm)

lemma cube_root_unit:
  assumes "0 \<le> w" "w \<le> 1"
  shows "0 \<le> root 3 w" "root 3 w \<le> 1"
proof -
  show "0 \<le> root 3 w" using assms by simp
  have "root 3 w \<le> root 3 1" using assms by (simp del: real_root_one)
  then show "root 3 w \<le> 1" by simp
qed

text \<open>
  Claim C9. For every radius \<open>radius \<ge> 0\<close> and every three draws in \<open>[0,1]\<close>, the point
  returned by the sphere sampler is the point with radial coordinate \<open>cbrt(w) * radius\<close>,
  azimuth \<open>2 * pi * u\<close> and polar angle \<open>acos(2 * v - 1)\<close> (an angle in \<open>[0, pi]\<close> whose
  cosine is \<open>2 * v - 1\<close>); its distance from the origin is that radial coordinate, and
  hence at most \<open>radius\<close>.
\<close>

theorem sphere_point_inside_radius:
  assumes "0 \<le> radius"
    and "0 \<le> u" and "u \<le> 1"
    and "0 \<le> v" and "v \<le> 1"
    and "0 \<le> w" and "w \<le> 1"
  shows "getRandomSpherePoint radius u v w
           = (root 3 w * radius * sin (arccos (2 * v - 1)) * cos (2 * pi * u),
              root 3 w * radius * sin (arccos (2 * v - 1)) * sin (2 * pi * u),
              root 3 w * radius * cos (arccos (2 * v - 1)))
       \<and> 0 \<le> arccos (2 * v - 1) \<and> arccos (2 * v - 1) \<le> pi
       \<and> cos (arccos (2 * v - 1)) = 2 * v - 1
       \<and> Vector3_length (getRandomSpherePoint radius u v w) = root 3 w * radius
       \<and> Vector3_length (getRandomSpherePoint radius u v w) \<le> radius"
proof -
  have range: "- 1 \<le> 2 * v - 1" "2 * v - 1 \<le> 1" using assms by simp_all
  have angle: "0 \<le> arccos (2 * v - 1)" "arccos (2 * v - 1) \<le> pi"
    "cos (arccos (2 * v - 1)) = 2 * v - 1"
    using range by (simp_all add: arccos_lbound arccos_ubound)
  have root: "0 \<le> root 3 w" "root 3 w \<le> 1" using cube_root_unit assms by simp_all
  have nonneg: "0 \<le> root 3 w * radius" using root assms by simp
  have len: "Vector3_length (getRandomSpherePoint radius u v w) = root 3 w * radius"
    using nonneg by (simp add: length_getRandomSpherePoint)
  have "root 3 w * radius \<le> 1 * radius"
    using root assms by (intro mult_right_mono) simp_all
  then have le: "Vector3_length (getRandomSpherePoint radius u v w) \<le> radius"
    using len by simp
  have point: "getRandomSpherePoint radius u v w
           = (root 3 w * radius * sin (arccos (2 * v - 1)) * cos (2 * pi * u),
              root 3 w * radius * sin (arccos (2 * v - 1)) * sin (2 * pi * u),
              root 3 w * radius * cos (arccos (2 * v - 1)))"
    by (simp add: getRandomSpherePoint_def Let_def)
  show ?thesis using point angle len le by simp
qed

theorem sphere_point_inside_radius_witness:
  "Vector3_length (getRandomSpherePoint 25 (1/4) (1/2) (1/8)) \<le> 25"
  by (rule sphere_point_inside_radius [of 25 "1/4" "1/2" "1/8",
        THEN conjunct2, THEN conjunct2, THEN conjunct2, THEN conjunct2, THEN conjunct2])
    simp_all

section \<open>The lagged positions of ornaments and photos\<close>

lemma lerp_as_increment: "MathUtils_lerp x y t = x + (y - x) * t"
  by (simp add: MathUtils_lerp_def algebra_simps)

lemma between_increment:
  assumes "0 \<le> c" "c \<le> 1"
  shows "between a b (a + (b - a) * c)"
proof (cases "a \<le> b")
  case True
  have lo: "0 \<le> (b - a) * c" using True assms by simp
  have hi: "(b - a) * c \<le> b - a"
    using mult_left_le [of c "b - a"] True assms by simp
  have "min a b = a" "max a b = b" using True by simp_all
  then show ?thesis unfolding between_def using lo hi by linarith
next
  case False
  have flip: "(b - a) * c = - ((a - b) * c)" by (simp add: algebra_simps)
  have "0 \<le> (a - b) * c" using False assms by simp
  moreover have "(a - b) * c \<le> a - b"
    using mult_left_le [of c "a - b"] False assms by simp
  ultimately have lo: "b \<le> a + (b - a) * c" and hi: "a + (b - a) * c \<le> a"
    using flip by linarith+
  have "min a b = b" "max a b = a" using False by simp_all
  then show ?thesis unfolding between_def using lo hi by linarith
qed

lemma beyond_increment:
  assumes "1 < c" "a \<noteq> b"
  shows "\<not> between a b (a + (b - a) * c)"
proof (cases "a < b")
  case True
  have "0 < (b - a) * (c - 1)" using True assms by simp
  moreover have "(b - a) * (c - 1) = (b - a) * c - (b - a)" by (simp add: algebra_simps)
  ultimately have "b < a + (b - a) * c" by linarith
  moreover have "max a b = b" using True by simp
  ultimately show ?thesis unfolding between_def by linarith
next
  case False
  then have less: "b < a" using assms by linarith
  have "0 < (a - b) * (c - 1)" using less assms by simp
  moreover have "(a - b) * (c - 1) = (a - b) - (a + (b - a) * c) + b - (a - b)"
    by (simp add: algebra_simps)
  ultimately have "a + (b - a) * c < b" by linarith
  moreover have "min a b = b" using less by simp
  ultimately show ?thesis unfolding between_def by linarith
qed

lemma Vector3_lerp_between:
  assumes "0 \<le> c" "c \<le> 1"
  shows "vec3_between p q (Vector3_lerp p q c)"
proof -
  obtain px py pz where p: "p = (px, py, pz)" by (cases p) auto
  obtain qx qy qz where q: "q = (qx, qy, qz)" by (cases q) auto
  show ?thesis
    using between_increment [OF assms]
    by (simp add: p q Vector3_lerp_def vec3_between_def)
qed

lemma Vector3_lerp_beyond:
  assumes "1 < c" "p \<noteq> q"
  shows "\<not> vec3_between p q (Vector3_lerp p q c)"
proof -
  obtain px py pz where p: "p = (px, py, pz)" by (cases p) auto
  obtain qx qy qz where q: "q = (qx, qy, qz)" by (cases q) auto
  have "px \<noteq> qx \<or> py \<noteq> qy \<or> pz \<noteq> qz" using assms(2) by (simp add: p q)
  then show ?thesis
    using beyond_increment [OF assms(1), of px qx] beyond_increment [OF assms(1), of py qy]
      beyond_increment [OF assms(1), of pz qz]
    by (auto simp add: p q Vector3_lerp_def vec3_between_def)
qed

lemma updateMesh_item_as_lerp:
  "updateMesh_item True delta morphFactor item (Some currentPos)
     = Some (Vector3_lerp currentPos
               (Vector3_lerpVectors (scatterPosition item) (treePosition item) morphFactor)
               (delta * 1.5 * speed item))"
proof -
  obtain cx cy cz where c: "currentPos = (cx, cy, cz)" by (cases currentPos) auto
  obtain sx sy sz where s: "scatterPosition item = (sx, sy, sz)"
    by (cases "scatterPosition item") auto
  obtain tx ty tz where t: "treePosition item = (tx, ty, tz)"
    by (cases "treePosition item") auto
  show ?thesis
    by (simp add: updateMesh_item_def Let_def c s t Vector3_lerp_def Vector3_lerpVectors_def
          lerp_as_increment)
qed

lemma polaroidFrame_as_lerp:
  "polaroidFrame True delta magnified index total_photos morphFactor data photoPos
     = Vector3_lerp photoPos
         (polaroidTarget magnified index total_photos morphFactor data)
         (delta * (if magnified then 5 else 2 * speed data))"
  by (simp add: polaroidFrame_def Let_def)

text \<open>
  Claim C3, as amended. For every entity of the ornament and photo groups and every
  tick on which its mesh (for a photo, its group) is mounted, the stored position moves
  by \<^verbatim>\<open>currentPosition += (target - currentPosition) * c\<close>, where the target is the
  blend of scatter and tree position for an ornament and the frame's target for a
  photo, and the coefficient is \<open>c = delta * 1.5 * speed\<close> for an ornament and
  \<open>c = delta * 2 * speed\<close> for a photo (\<open>delta * 5\<close> while magnified). The coefficient
  is not clamped: the new position lies between the old position and the target
  whenever \<open>0 \<le> c \<le> 1\<close>, and it lies beyond the target, outside that range, whenever
  \<open>c > 1\<close> and the position is not yet at the target. On a tick without the mesh or the
  group the stored position stays as it is.
\<close>

theorem lagged_position_update_unclamped:
  fixes item :: "'a OrnamentData_scheme" and data :: "'b PhotoData_scheme"
    and delta morphFactor :: real and magnified :: bool and index total_photos :: nat
  defines "target \<equiv> Vector3_lerpVectors (scatterPosition item) (treePosition item) morphFactor"
    and "c \<equiv> delta * 1.5 * speed item"
    and "photoTarget \<equiv> polaroidTarget magnified index total_photos morphFactor data"
    and "photoC \<equiv> delta * (if magnified then 5 else 2 * speed data)"
  shows "updateMesh_item True delta morphFactor item (Some currentPos)
           = Some (Vector3_lerp currentPos target c)
       \<and> Vector3_lerp currentPos target c
           = (fst currentPos + (fst target - fst currentPos) * c,
              fst (snd currentPos) + (fst (snd target) - fst (snd currentPos)) * c,
              snd (snd currentPos) + (snd (snd target) - snd (snd currentPos)) * c)
       \<and> (0 \<le> c \<and> c \<le> 1 \<longrightarrow>
            (\<exists>p. updateMesh_item True delta morphFactor item (Some currentPos) = Some p
                 \<and> vec3_between currentPos target p))
       \<and> (1 < c \<and> currentPos \<noteq> target \<longrightarrow>
            (\<exists>p. updateMesh_item True delta morphFactor item (Some currentPos) = Some p
                 \<and> \<not> vec3_between currentPos target p))
       \<and> updateMesh_item False delta morphFactor item (Some currentPos) = Some currentPos
       \<and> polaroidFrame True delta magnified index total_photos morphFactor data photoPos
           = Vector3_lerp photoPos photoTarget photoC
       \<and> (0 \<le> photoC \<and> photoC \<le> 1 \<longrightarrow>
            vec3_between photoPos photoTarget
              (polaroidFrame True delta magnified index total_photos morphFactor data photoPos))
       \<and> (1 < photoC \<and> photoPos \<noteq> photoTarget \<longrightarrow>
            \<not> vec3_between photoPos photoTarget
              (polaroidFrame True delta magnified index total_photos morphFactor data photoPos))
       \<and> polaroidFrame False delta magnified index total_photos morphFactor data photoPos
           = photoPos"
proof -
  have orn: "updateMesh_item True delta morphFactor item (Some currentPos)
           = Some (Vector3_lerp currentPos target c)"
    unfolding target_def c_def by (rule updateMesh_item_as_lerp)
  have coords: "Vector3_lerp currentPos target c
           = (fst currentPos + (fst target - fst currentPos) * c,
              fst (snd currentPos) + (fst (snd target) - fst (snd currentPos)) * c,
              snd (snd currentPos) + (snd (snd target) - snd (snd currentPos)) * c)"
    by (simp add: Vector3_lerp_def split_beta)
  have photo: "polaroidFrame True delta magnified index total_photos morphFactor data photoPos
           = Vector3_lerp photoPos photoTarget photoC"
    unfolding photoTarget_def photoC_def by (rule polaroidFrame_as_lerp)
  have off: "updateMesh_item False delta morphFactor item (Some currentPos) = Some currentPos"
    "polaroidFrame False delta magnified index total_photos morphFactor data photoPos = photoPos"
    by (simp_all add: updateMesh_item_def polaroidFrame_def)
  show ?thesis
    unfolding photo orn
    using coords off Vector3_lerp_between [of c currentPos target]
      Vector3_lerp_beyond [of c currentPos target]
      Vector3_lerp_between [of photoC photoPos photoTarget]
      Vector3_lerp_beyond [of photoC photoPos photoTarget]
    by simp
qed

theorem lagged_position_update_unclamped_witness:
  "(\<exists>p. updateMesh_item True (1/60) 1 sample_ornament (Some (0, 0, 0)) = Some p
        \<and> vec3_between (0, 0, 0) (1, 2, 3) p)
   \<and> (\<exists>p. updateMesh_item True 1 1 sample_ornament (Some (0, 0, 0)) = Some p
        \<and> \<not> vec3_between (0, 0, 0) (1, 2, 3) p)
   \<and> vec3_between (0, 0, 0) (1, 2, 3)
        (polaroidFrame True (1/60) False 0 1 1 sample_photo (0, 0, 0))
   \<and> \<not> vec3_between (0, 0, 0) (1, 2, 3)
        (polaroidFrame True 1 False 0 1 1 sample_photo (0, 0, 0))"
proof -
  have target:
    "Vector3_lerpVectors (scatterPosition sample_ornament) (treePosition sample_ornament) 1
       = (1, 2, 3)"
    "polaroidTarget False 0 1 1 sample_photo = (1, 2, 3)"
    by (simp_all add: sample_ornament_def sample_photo_def Vector3_lerpVectors_def
          polaroidTarget_def)
  have "\<exists>p. updateMesh_item True (1/60) 1 sample_ornament (Some (0, 0, 0)) = Some p
          \<and> vec3_between (0, 0, 0)
               (Vector3_lerpVectors (scatterPosition sample_ornament)
                  (treePosition sample_ornament) 1) p"
    by (rule lagged_position_update_unclamped
          [where delta = "1/60" and item = sample_ornament and morphFactor = 1
             and currentPos = "(0, 0, 0)" and magnified = False and data = sample_photo
             and index = 0 and total_photos = 1 and photoPos = "(0, 0, 0)",
             THEN conjunct2, THEN conjunct2, THEN conjunct1, rule_format])
      (simp add: sample_ornament_def)
  moreover have "\<exists>p. updateMesh_item True 1 1 sample_ornament (Some (0, 0, 0)) = Some p
          \<and> \<not> vec3_between (0, 0, 0)
               (Vector3_lerpVectors (scatterPosition sample_ornament)
                  (treePosition sample_ornament) 1) p"
    by (rule lagged_position_update_unclamped
          [where delta = "1" and item = sample_ornament and morphFactor = 1
             and currentPos = "(0, 0, 0)" and magnified = False and data = sample_photo
             and index = 0 and total_photos = 1 and photoPos = "(0, 0, 0)",
             THEN conjunct2, THEN conjunct2, THEN conjunct2, THEN conjunct1, rule_format])
      (simp add: sample_ornament_def Vector3_lerpVectors_def)
  moreover have "vec3_between (0, 0, 0) (polaroidTarget False 0 1 1 sample_photo)
          (polaroidFrame True (1/60) False 0 1 1 sample_photo (0, 0, 0))"
    by (rule lagged_position_update_unclamped
          [where delta = "1/60" and item = sample_ornament and morphFactor = 1
             and currentPos = "(0, 0, 0)" and magnified = False and data = sample_photo
             and index = 0 and total_photos = 1 and photoPos = "(0, 0, 0)",
             THEN conjunct2, THEN conjunct2, THEN conjunct2, THEN conjunct2, THEN conjunct2, THEN conjunct2, THEN conjunct1, rule_format])
      (simp add: sample_photo_def)
  moreover have "\<not> vec3_between (0, 0, 0) (polaroidTarget False 0 1 1 sample_photo)
          (polaroidFrame True 1 False 0 1 1 sample_photo (0, 0, 0))"
    by (rule lagged_position_update_unclamped
          [where delta = "1" and item = sample_ornament and morphFactor = 1
             and currentPos = "(0, 0, 0)" and magnified = False and data = sample_photo
             and index = 0 and total_photos = 1 and photoPos = "(0, 0, 0)",
             THEN conjunct2, THEN conjunct2, THEN conjunct2, THEN conjunct2, THEN conjunct2, THEN conjunct2, THEN conjunct2, THEN conjunct1, rule_format])
      (simp add: sample_photo_def polaroidTarget_def Vector3_lerpVectors_def)
  ultimately show ?thesis unfolding target by blast
qed

text \<open>
  Claim C3 as stated fails on a stalled frame. An ornament of speed 2 after a frame of
  half a second has coefficient 1.5 and moves from the origin past its target
  \<open>(1, 2, 3)\<close> to \<open>(1.5, 3, 4.5)\<close>, where the clamped step of the specification would
  stop at the target; a photo of speed 1 after a frame of one second has coefficient 2
  and moves to \<open>(2, 4, 6)\<close>.
\<close>

theorem lagged_position_overshoots_counterexample:
  "updateMesh_item True (1/2) 1 sample_ornament (Some (0, 0, 0)) = Some (3/2, 3, 9/2)
   \<and> spec_smoothing 0 1 (1/2) (speed sample_ornament) 1.5 = 1
   \<and> \<not> vec3_between (0, 0, 0) (1, 2, 3) (3/2, 3, 9/2)
   \<and> polaroidFrame True 1 False 0 1 1 sample_photo (0, 0, 0) = (2, 4, 6)
   \<and> spec_smoothing 0 1 1 (speed sample_photo) 2 = 1
   \<and> \<not> vec3_between (0, 0, 0) (1, 2, 3)
         (polaroidFrame True 1 False 0 1 1 sample_photo (0, 0, 0))"
  by (simp add: updateMesh_item_def polaroidFrame_def polaroidTarget_def sample_ornament_def
        sample_photo_def MathUtils_lerp_def Vector3_lerp_def Vector3_lerpVectors_def
        spec_smoothing_def vec3_between_def between_def Let_def)

section \<open>The gesture handler\<close>

text \<open>With all 21 landmarks present the handler raises nothing and computes the specification's readings.\<close>

lemma js_index_in_range:
  assumes "21 \<le> length xs" and "i < 21"
  shows "js_index xs i = Some (xs ! i)"
proof -
  have "i < length xs" using assms by linarith
  then show ?thesis unfolding js_index_def by (rule if_P)
qed

lemma isFingerOpen_complete:
  assumes "21 \<le> length l" and "tip < 21" and "joint < 21"
  shows "isFingerOpen l (js_index l 0) tip joint = Inr (finger_open l (tip, joint))"
  using assms
  by (simp add: isFingerOpen_def js_index_in_range finger_open_def landmark_distance_def
        hypot_def Let_def)

lemma openCount_of_complete:
  assumes "21 \<le> length l"
  shows "openCount_of l = Inr (openCount l)"
  using assms
  by (simp add: openCount_of_def openCount_def finger_joints_def bindE_def Let_def
        isFingerOpen_complete)

lemma pinchDist_of_complete:
  assumes "21 \<le> length l"
  shows "pinchDist_of l = Inr (pinchDistance l)"
  using assms
  by (simp add: pinchDist_of_def pinchDistance_def js_index_in_range landmark_distance_def
        hypot_def)

lemma handDetected_complete:
  assumes "21 \<le> length l"
  shows "handDetected l s =
           Returned (setHandPosition
                       (Some ((1 - lm_x (l ! 9) - 0.5) * 2, (lm_y (l ! 9) - 0.5) * 2))
                       (priorityLogic (openCount l) (pinchDistance l)
                          (s\<lparr>status := ''active''\<rparr>)))"
  using assms
  by (simp add: handDetected_def positionTracking_def openCount_of_complete
        pinchDist_of_complete js_index_in_range Let_def)

lemma onResults_hand:
  assumes "canvasRefCurrent d" "videoRefCurrent d" "canvasCtx d"
    and "multiHandLandmarks res = Some (l # others)"
  shows "onResults d res s = handDetected l s"
  using assms by (simp add: onResults_def)

lemma openCount_le_5: "openCount l \<le> 5"
proof -
  have "length (filter (finger_open l) finger_joints) \<le> length finger_joints"
    by (rule length_filter_le)
  then show ?thesis by (simp add: openCount_def finger_joints_def)
qed


subsection \<open>The concrete hands\<close>

lemma sqrt_at_least:
  fixes x :: real
  assumes "1 / 400 \<le> x"
  shows "0.05 \<le> sqrt x"
proof (rule real_le_rsqrt)
  show "(0.05 :: real)\<^sup>2 \<le> x" using assms by (simp add: power2_eq_square)
qed

lemma length_hand_sample: "length (hand_sample a b c d e) = 21"
  by (simp add: hand_sample_def)

lemma pinching_open_hand_facts:
  "length pinching_open_hand = 21"
  "pinchDistance pinching_open_hand = 0.03"
  "openCount pinching_open_hand = 5"
proof -
  show "length pinching_open_hand = 21"
    by (simp add: pinching_open_hand_def length_hand_sample)
  have "sqrt ((3 / 100)\<^sup>2) = (3 / 100 :: real)" by simp
  then show "pinchDistance pinching_open_hand = 0.03"
    by (simp add: pinchDistance_def pinching_open_hand_def hand_sample_def point_def
          landmark_distance_def power2_eq_square)
  show "openCount pinching_open_hand = 5"
    by (simp add: openCount_def finger_joints_def finger_open_def pinching_open_hand_def
          hand_sample_def point_def landmark_distance_def power2_eq_square)
qed

lemma open_hand_facts:
  "length open_hand = 21"
  "0.05 \<le> pinchDistance open_hand"
  "openCount open_hand = 5"
proof -
  show "length open_hand = 21" by (simp add: open_hand_def length_hand_sample)
  have "pinchDistance open_hand = sqrt (2 / 25)"
    by (simp add: pinchDistance_def open_hand_def hand_sample_def point_def
          landmark_distance_def power2_eq_square)
  moreover have "0.05 \<le> sqrt (2 / 25 :: real)" by (rule sqrt_at_least) simp
  ultimately show "0.05 \<le> pinchDistance open_hand" by (simp only:)
  show "openCount open_hand = 5"
    by (simp add: openCount_def finger_joints_def finger_open_def open_hand_def
          hand_sample_def point_def landmark_distance_def power2_eq_square)
qed

lemma two_finger_hand_facts:
  "length two_finger_hand = 21"
  "0.05 \<le> pinchDistance two_finger_hand"
  "openCount two_finger_hand = 2"
proof -
  show "length two_finger_hand = 21" by (simp add: two_finger_hand_def length_hand_sample)
  have "pinchDistance two_finger_hand = sqrt (41 / 200)"
    by (simp add: pinchDistance_def two_finger_hand_def hand_sample_def point_def
          landmark_distance_def power2_eq_square)
  moreover have "0.05 \<le> sqrt (41 / 200 :: real)" by (rule sqrt_at_least) simp
  ultimately show "0.05 \<le> pinchDistance two_finger_hand" by (simp only:)
  show "openCount two_finger_hand = 2"
    by (simp add: openCount_def finger_joints_def finger_open_def two_finger_hand_def
          hand_sample_def point_def landmark_distance_def power2_eq_square)
qed

lemma fist_hand_facts:
  "length fist_hand = 21"
  "0.05 \<le> pinchDistance fist_hand"
  "openCount fist_hand = 0"
proof -
  show "length fist_hand = 21" by (simp add: fist_hand_def length_hand_sample)
  have "pinchDistance fist_hand = sqrt (1 / 200)"
    by (simp add: pinchDistance_def fist_hand_def hand_sample_def point_def
          landmark_distance_def power2_eq_square)
  moreover have "0.05 \<le> sqrt (1 / 200 :: real)" by (rule sqrt_at_least) simp
  ultimately show "0.05 \<le> pinchDistance fist_hand" by (simp only:)
  show "openCount fist_hand = 0"
    by (simp add: openCount_def finger_joints_def finger_open_def fist_hand_def
          hand_sample_def point_def landmark_distance_def power2_eq_square)
qed

subsection \<open>Classification\<close>

text \<open>
  Claim C4. For every landmark sample with a hand present (all 21 landmarks) whose
  thumb-tip-to-index-tip distance is below 0.05, the handler sets the label
  \<^verbatim>\<open>CATCH\<close> (pinch) and magnify to true and leaves the tree state as it was,
  whatever the number of open fingers. The handler is taken past its early returns: the
  canvas and video refs are set and the canvas has a 2D context.
\<close>

theorem pinch_preempts_open_and_fist:
  assumes "canvasRefCurrent d" and "videoRefCurrent d" and "canvasCtx d"
    and "multiHandLandmarks res = Some (l # others)"
    and "21 \<le> length l"
    and "pinchDistance l < 0.05"
  shows "\<exists>s'. onResults d res s = Returned s'
            \<and> gestureLabel s' = ''CATCH''
            \<and> isMagnified s'
            \<and> treeState s' = treeState s"
  using assms
  by (simp add: onResults_hand handDetected_complete priorityLogic_def setHandPosition_def
        setIsMagnified_def Let_def)

text \<open>The sample with pinch distance 0.03 and all five fingers open is labelled \<^verbatim>\<open>CATCH\<close>.\<close>

theorem pinch_preempts_open_and_fist_witness:
  "pinchDistance pinching_open_hand = 0.03
   \<and> openCount pinching_open_hand = 5
   \<and> (\<exists>s'. onResults dom_ready \<lparr>multiHandLandmarks = Some [pinching_open_hand]\<rparr>
               (sample_state\<lparr>isMagnified := False\<rparr>) = Returned s'
           \<and> gestureLabel s' = ''CATCH'' \<and> isMagnified s' \<and> treeState s' = SCATTERED)"
  using pinch_preempts_open_and_fist
          [of dom_ready "\<lparr>multiHandLandmarks = Some [pinching_open_hand]\<rparr>"
              pinching_open_hand "[]" "sample_state\<lparr>isMagnified := False\<rparr>"]
    pinching_open_hand_facts
  by (auto simp add: dom_ready_def sample_state_def)

text \<open>
  Claim C5. For every landmark sample with a hand present (all 21 landmarks) and pinch
  distance at least 0.05, with the open count being the number of the five fingers whose
  tip is strictly farther from the wrist than its proximal joint (a number from 0 to 5),
  the handler sets magnify to false; an open count of at most 1 sets the tree state to
  \<open>TREE_SHAPE\<close> (formed, label \<^verbatim>\<open>FORM\<close>), an open count of at least 4 sets it
  to \<open>SCATTERED\<close> (label \<^verbatim>\<open>UNLEASH\<close>), and an open count of 2 or 3 gives the
  label \<^verbatim>\<open>TRACKING\<close> and leaves the tree state as it was. The handler is taken
  past its early returns, as for C4.
\<close>

theorem open_and_fist_classification:
  assumes "canvasRefCurrent d" and "videoRefCurrent d" and "canvasCtx d"
    and "multiHandLandmarks res = Some (l # others)"
    and "21 \<le> length l"
    and "0.05 \<le> pinchDistance l"
  shows "openCount l \<le> 5
       \<and> (\<exists>s'. onResults d res s = Returned s'
            \<and> \<not> isMagnified s'
            \<and> (openCount l \<le> 1 \<longrightarrow>
                  treeState s' = TREE_SHAPE \<and> gestureLabel s' = ''FORM'')
            \<and> (4 \<le> openCount l \<longrightarrow>
                  treeState s' = SCATTERED \<and> gestureLabel s' = ''UNLEASH'')
            \<and> (openCount l = 2 \<or> openCount l = 3 \<longrightarrow>
                  treeState s' = treeState s \<and> gestureLabel s' = ''TRACKING''))"
  using assms openCount_le_5 [of l]
  by (auto simp add: onResults_hand handDetected_complete priorityLogic_def
        setHandPosition_def setIsMagnified_def handleStateChange_def Let_def)

theorem open_and_fist_classification_witness:
  "(\<exists>s'. onResults dom_ready \<lparr>multiHandLandmarks = Some [fist_hand]\<rparr> sample_state
             = Returned s'
         \<and> \<not> isMagnified s' \<and> treeState s' = TREE_SHAPE \<and> gestureLabel s' = ''FORM'')
   \<and> (\<exists>s'. onResults dom_ready \<lparr>multiHandLandmarks = Some [open_hand]\<rparr>
               (sample_state\<lparr>treeState := TREE_SHAPE\<rparr>) = Returned s'
         \<and> \<not> isMagnified s' \<and> treeState s' = SCATTERED \<and> gestureLabel s' = ''UNLEASH'')
   \<and> (\<exists>s'. onResults dom_ready \<lparr>multiHandLandmarks = Some [two_finger_hand]\<rparr>
               (sample_state\<lparr>treeState := TREE_SHAPE\<rparr>) = Returned s'
         \<and> \<not> isMagnified s' \<and> treeState s' = TREE_SHAPE \<and> gestureLabel s' = ''TRACKING'')"
  using open_and_fist_classification
          [of dom_ready "\<lparr>multiHandLandmarks = Some [fist_hand]\<rparr>" fist_hand "[]" sample_state]
    open_and_fist_classification
          [of dom_ready "\<lparr>multiHandLandmarks = Some [open_hand]\<rparr>" open_hand "[]"
              "sample_state\<lparr>treeState := TREE_SHAPE\<rparr>"]
    open_and_fist_classification
          [of dom_ready "\<lparr>multiHandLandmarks = Some [two_finger_hand]\<rparr>" two_finger_hand "[]"
              "sample_state\<lparr>treeState := TREE_SHAPE\<rparr>"]
    fist_hand_facts open_hand_facts two_finger_hand_facts
  by (auto simp add: dom_ready_def sample_state_def)

text \<open>
  Claim C6. For every result in which no hand is detected (the hand list is missing or
  empty), the handler sets the hand position to none and magnify to false, labels the
  tick \<^verbatim>\<open>NO HAND\<close>, and leaves the tree state as it was. The handler is taken past
  its early returns, as for C4.
\<close>

theorem no_hand_freezes_state:
  assumes "canvasRefCurrent d" and "videoRefCurrent d" and "canvasCtx d"
    and "multiHandLandmarks res = None \<or> multiHandLandmarks res = Some []"
  shows "\<exists>s'. onResults d res s = Returned s'
            \<and> handPosition s' = None
            \<and> \<not> isMagnified s'
            \<and> gestureLabel s' = ''NO HAND''
            \<and> treeState s' = treeState s"
  using assms
  by (auto simp add: onResults_def noHand_def setHandPosition_def setIsMagnified_def)

theorem no_hand_freezes_state_witness:
  "\<exists>s'. onResults dom_ready \<lparr>multiHandLandmarks = None\<rparr> sample_state = Returned s'
        \<and> handPosition s' = None \<and> \<not> isMagnified s' \<and> treeState s' = SCATTERED"
  using no_hand_freezes_state [of dom_ready "\<lparr>multiHandLandmarks = None\<rparr>" sample_state]
  by (auto simp add: dom_ready_def sample_state_def)

subsection \<open>Samples with missing joints\<close>

lemma openCount_of_incomplete:
  assumes "length l < 21"
  shows "openCount_of l = Inl TypeError"
proof -
  have "js_index l 20 = None" using assms by (simp add: js_index_def)
  then have pinky: "isFingerOpen l (js_index l 0) 20 18 = Inl TypeError"
    by (simp add: isFingerOpen_def)
  have err: "isFingerOpen l (js_index l 0) tip joint = Inl TypeError
                \<or> (\<exists>b. isFingerOpen l (js_index l 0) tip joint = Inr b)" for tip joint
  proof (cases "isFingerOpen l (js_index l 0) tip joint")
    case (Inl e)
    then show ?thesis by (cases e) simp
  next
    case (Inr b)
    then show ?thesis by simp
  qed
  show ?thesis
    using pinky err [of 8 6] err [of 12 10] err [of 16 14]
    by (auto simp add: openCount_of_def bindE_def Let_def)
qed

text \<open>
  Claim C7, as amended. A landmark sample that is present but has fewer than 21
  landmarks is not handled like the absence of a hand: the handler marks the sensor
  active and then raises a TypeError when it reads the first missing joint, before it
  has called any of the three callbacks. So the tree state, magnify and the hand
  position all keep the values they had (magnify and the hand position are not
  reset), and the handler does not return normally.
\<close>

theorem incomplete_sample_raises:
  assumes "canvasRefCurrent d" and "videoRefCurrent d" and "canvasCtx d"
    and "multiHandLandmarks res = Some (l # others)"
    and "length l < 21"
  shows "onResults d res s = Raised TypeError (s\<lparr>status := ''active''\<rparr>)
       \<and> (\<forall>s'. onResults d res s \<noteq> Returned s')"
  using assms
  by (simp add: onResults_hand handDetected_def openCount_of_incomplete Let_def)

theorem incomplete_sample_raises_witness:
  "onResults dom_ready \<lparr>multiHandLandmarks = Some [take 9 fist_hand]\<rparr> sample_state
     = Raised TypeError (sample_state\<lparr>status := ''active''\<rparr>)"
  using incomplete_sample_raises
          [of dom_ready "\<lparr>multiHandLandmarks = Some [take 9 fist_hand]\<rparr>"
              "take 9 fist_hand" "[]" sample_state]
  by (simp add: dom_ready_def fist_hand_facts)

text \<open>
  Claim C7 as stated fails for a hand of 20 landmarks (the tip of the little finger
  missing): from a state that is magnified and has a hand position, the handler raises
  a TypeError and leaves both in place, where the same state without a hand returns
  normally with magnify false and no hand position.
\<close>

theorem incomplete_sample_not_no_hand_counterexample:
  "onResults dom_ready \<lparr>multiHandLandmarks = Some [take 20 open_hand]\<rparr> sample_state
     = Raised TypeError (sample_state\<lparr>status := ''active''\<rparr>)
   \<and> isMagnified (sample_state\<lparr>status := ''active''\<rparr>)
   \<and> handPosition (sample_state\<lparr>status := ''active''\<rparr>) = Some (0.2, 0.1)
   \<and> onResults dom_ready \<lparr>multiHandLandmarks = None\<rparr> sample_state
     = Returned (sample_state\<lparr>handPosition := None, gestureLabel := ''NO HAND'',
                               isMagnified := False\<rparr>)"
  by (simp add: onResults_def handDetected_def openCount_of_incomplete open_hand_facts
        noHand_def setHandPosition_def setIsMagnified_def dom_ready_def sample_state_def
        Let_def)

end
